theory Spec2Isabelle
  imports Complex_Main "HOL-Library.Sublist"
begin

section \<open>JavaScript values used by the playback integration layer\<close>

text \<open>
  The services under \<open>src/services\<close> (\<open>spotifyAuth.ts\<close>, \<open>spotifyAPI.ts\<close>,
  \<open>spotifyPlayer.ts\<close>) are embedded below. A value of type \<open>string | null\<close> is a
  \<open>string option\<close>; numbers that hold millisecond timestamps are \<open>int\<close> (a double is exact
  on integers below \<open>2^53\<close>, which covers every timestamp the code computes), and
  \<open>NaN\<close> is the \<open>None\<close> of \<open>int option\<close>.
\<close>

text \<open>JavaScript truthiness of a \<open>string | null\<close>: \<open>null\<close> and the empty string are falsy.\<close>

definition truthy :: "string option \<Rightarrow> bool" where
  "truthy v = (case v of None \<Rightarrow> False | Some s \<Rightarrow> s \<noteq> [])"

text \<open>
  The white space that \<open>parseInt\<close> skips, among the characters with a code below 256
  (strings are modelled with such characters only).
\<close>

definition isWhiteSpace :: "char \<Rightarrow> bool" where
  "isWhiteSpace c = (c = CHR 0x09 \<or> c = CHR 0x0A \<or> c = CHR 0x0B \<or> c = CHR 0x0C
     \<or> c = CHR 0x0D \<or> c = CHR 0x20 \<or> c = CHR 0xA0)"

text \<open>The value of a character as a digit; 36 stands for "not a digit".\<close>

definition digitValue :: "char \<Rightarrow> nat" where
  "digitValue c =
     (let n = (of_char c :: nat) in
      if 48 \<le> n \<and> n \<le> 57 then n - 48
      else if 97 \<le> n \<and> n \<le> 122 then n - 87
      else if 65 \<le> n \<and> n \<le> 90 then n - 55
      else 36)"

text \<open>
  \<open>parseInt(string)\<close> without a radix argument: skip white space, read a sign, take radix
  16 after a \<open>0x\<close>/\<open>0X\<close> prefix and radix 10 otherwise, read the longest run of digits,
  and give \<open>NaN\<close> when that run is empty. The value is the exact integer; a double
  rounds it beyond \<open>2^53\<close>.
\<close>

definition parseInt :: "string \<Rightarrow> int option" where
  "parseInt str =
     (let s = dropWhile isWhiteSpace str;
          neg = (case s of [] \<Rightarrow> False | c # _ \<Rightarrow> c = CHR ''-'');
          s1 = (case s of [] \<Rightarrow> s | c # cs \<Rightarrow> if c = CHR ''-'' \<or> c = CHR ''+'' then cs else s);
          hex = (case s1 of a # b # _ \<Rightarrow> a = CHR ''0'' \<and> (b = CHR ''x'' \<or> b = CHR ''X'') | _ \<Rightarrow> False);
          r = (if hex then 16 else 10 :: nat);
          s2 = (if hex then drop 2 s1 else s1);
          z = takeWhile (\<lambda>c. digitValue c < r) s2
      in if z = [] then None
         else Some ((if neg then - 1 else 1) * int (foldl (\<lambda>acc c. acc * r + digitValue c) 0 z)))"

text \<open>\<open>Number.prototype.toString\<close> on an integer (decimal, no exponent below \<open>10^21\<close>).\<close>

definition digitChar :: "nat \<Rightarrow> char" where
  "digitChar d = char_of (48 + d)"

fun natToString :: "nat \<Rightarrow> string" where
  "natToString n = (if n < 10 then [digitChar n] else natToString (n div 10) @ [digitChar (n mod 10)])"

declare natToString.simps [simp del]

definition toString :: "int \<Rightarrow> string" where
  "toString i = (if i < 0 then CHR ''-'' # natToString (nat (- i)) else natToString (nat i))"

text \<open>\<open>String.prototype.includes\<close>: the pattern occurs as a contiguous substring.\<close>

fun js_includes :: "string \<Rightarrow> string \<Rightarrow> bool" where
  "js_includes [] p = (p = [])"
| "js_includes (c # cs) p = (prefix p (c # cs) \<or> js_includes cs p)"

section \<open>spotifyAuth.ts\<close>

definition ACCESS_TOKEN_KEY :: string where "ACCESS_TOKEN_KEY = ''spotify_access_token''"
definition REFRESH_TOKEN_KEY :: string where "REFRESH_TOKEN_KEY = ''spotify_refresh_token''"
definition TOKEN_EXPIRY_KEY :: string where "TOKEN_EXPIRY_KEY = ''spotify_token_expiry''"
definition CODE_VERIFIER_KEY :: string where "CODE_VERIFIER_KEY = ''spotify_code_verifier''"

text \<open>
  The JSON of the token endpoint, \<open>{access_token, refresh_token?, expires_in}\<close>, and what a
  \<open>fetch\<close> of that endpoint can do: reject (network error), or resolve with a response whose
  \<open>ok\<close> flag is given and whose \<open>json()\<close> resolves (\<open>Some\<close>) or rejects (\<open>None\<close>).
\<close>

record token_json =
  access_token :: string
  refresh_token :: "string option"
  expires_in :: int

datatype token_reply = NetworkError | TokenResponse bool "token_json option"

datatype token_request =
    AuthorizationCode string string
  | RefreshToken string

text \<open>
  The browser as \<open>SpotifyAuth\<close> sees it: \<open>localStorage\<close>, \<open>Date.now()\<close>, the decoded
  query parameters of \<open>window.location.search\<close>, the replies the token endpoint will give
  to the next requests (each with the milliseconds that pass while it is awaited), and the
  requests sent so far. A function that awaits a reply that never comes does not return:
  its value is \<open>None\<close>.
\<close>

record world =
  localStorage :: "string \<rightharpoonup> string"
  now :: int
  location_search :: "(string \<times> string) list"
  token_endpoint :: "(nat \<times> token_reply) list"
  token_requests :: "token_request list"

definition setItem :: "string \<Rightarrow> string \<Rightarrow> world \<Rightarrow> world" where
  "setItem k v w = w\<lparr>localStorage := (localStorage w)(k \<mapsto> v)\<rparr>"

definition removeItem :: "string \<Rightarrow> world \<Rightarrow> world" where
  "removeItem k w = w\<lparr>localStorage := (localStorage w)(k := None)\<rparr>"

definition getItem :: "string \<Rightarrow> world \<Rightarrow> string option" where
  "getItem k w = localStorage w k"

text \<open>\<open>localStorage.setItem\<close> stores the string \<open>undefined\<close> for a missing value.\<close>

definition js_string_of :: "string option \<Rightarrow> string" where
  "js_string_of v = (case v of None \<Rightarrow> ''undefined'' | Some s \<Rightarrow> s)"

definition storeTokens :: "string \<Rightarrow> string \<Rightarrow> int \<Rightarrow> world \<Rightarrow> world" where
  "storeTokens accessToken refreshToken expiresIn w =
     (let expiryTime = now w + expiresIn * 1000 in
      setItem TOKEN_EXPIRY_KEY (toString expiryTime)
        (setItem REFRESH_TOKEN_KEY refreshToken
          (setItem ACCESS_TOKEN_KEY accessToken w)))"

definition logout :: "world \<Rightarrow> world" where
  "logout w =
     removeItem CODE_VERIFIER_KEY
       (removeItem TOKEN_EXPIRY_KEY
         (removeItem REFRESH_TOKEN_KEY
           (removeItem ACCESS_TOKEN_KEY w)))"

definition getAccessToken :: "world \<Rightarrow> string option" where
  "getAccessToken w =
     (let token = getItem ACCESS_TOKEN_KEY w;
          expiry = getItem TOKEN_EXPIRY_KEY w
      in if \<not> truthy token \<or> \<not> truthy expiry then None
         else (case parseInt (the expiry) of
                 Some e \<Rightarrow> if now w \<ge> e then None else token
               | None \<Rightarrow> token))"

text \<open>Sending a request to the token endpoint and awaiting its reply.\<close>

definition post_token :: "token_request \<Rightarrow> world \<Rightarrow> (token_reply \<times> world) option" where
  "post_token req w =
     (case token_endpoint w of
        [] \<Rightarrow> None
      | (ms, reply) # rest \<Rightarrow>
          Some (reply, w\<lparr>now := now w + int ms, token_endpoint := rest,
                          token_requests := token_requests w @ [req]\<rparr>))"

definition refreshAccessToken :: "world \<Rightarrow> (string option \<times> world) option" where
  "refreshAccessToken w =
     (let refreshToken = getItem REFRESH_TOKEN_KEY w in
      if \<not> truthy refreshToken then Some (None, w)
      else
        (case post_token (RefreshToken (the refreshToken)) w of
           None \<Rightarrow> None
         | Some (NetworkError, w1) \<Rightarrow> Some (None, logout w1)
         | Some (TokenResponse ok body, w1) \<Rightarrow>
             if \<not> ok then Some (None, logout w1)
             else
               (case body of
                  None \<Rightarrow> Some (None, logout w1)
                | Some data \<Rightarrow>
                    Some (Some (access_token data),
                          storeTokens (access_token data)
                            (if truthy (refresh_token data) then the (refresh_token data)
                             else the refreshToken)
                            (expires_in data) w1))))"

definition getValidAccessToken :: "world \<Rightarrow> (string option \<times> world) option" where
  "getValidAccessToken w =
     (let token = getAccessToken w in
      if \<not> truthy token then refreshAccessToken w else Some (token, w))"

definition isAuthenticated :: "world \<Rightarrow> bool" where
  "isAuthenticated w = (getAccessToken w \<noteq> None)"

text \<open>
  \<open>URLSearchParams.get\<close> gives the first value of a name. After a successful exchange
  \<open>history.replaceState\<close> leaves the path alone and drops the query.
\<close>

definition handleCallback :: "world \<Rightarrow> (bool \<times> world) option" where
  "handleCallback w =
     (let code = map_of (location_search w) ''code'';
          error = map_of (location_search w) ''error''
      in if truthy error then Some (False, w)
         else if \<not> truthy code then Some (False, w)
         else
           (let codeVerifier = getItem CODE_VERIFIER_KEY w in
            if \<not> truthy codeVerifier then Some (False, w)
            else
              (case post_token (AuthorizationCode (the code) (the codeVerifier)) w of
                 None \<Rightarrow> None
               | Some (NetworkError, w1) \<Rightarrow> Some (False, w1)
               | Some (TokenResponse ok body, w1) \<Rightarrow>
                   if \<not> ok then Some (False, w1)
                   else
                     (case body of
                        None \<Rightarrow> Some (False, w1)
                      | Some data \<Rightarrow>
                          Some (True,
                                (removeItem CODE_VERIFIER_KEY
                                  (storeTokens (access_token data)
                                     (js_string_of (refresh_token data))
                                     (expires_in data) w1))
                                \<lparr>location_search := []\<rparr>)))))"

section \<open>spotifyAPI.ts\<close>

text \<open>
  What a \<open>fetch\<close> of the catalog API can do: reject, or resolve with a status, a status
  text and a body whose \<open>json()\<close> resolves (\<open>Some\<close>) or rejects (\<open>None\<close>).
  \<open>response.ok\<close> is a status in the range 200 to 299.
\<close>

datatype api_reply = ApiNetworkError | ApiResponse nat string "string option"

definition response_ok :: "nat \<Rightarrow> bool" where
  "response_ok status = (200 \<le> status \<and> status \<le> 299)"

datatype api_error =
    NoValidAccessToken
  | SpotifyApiError nat string
  | FetchRejected
  | JsonRejected

text \<open>
  \<open>SpotifyAPI.fetch\<close>. The replies of the catalog API to the requests of this call are
  the first argument, in the order the requests are sent; the bearer tokens of the requests
  sent are collected in the third. The retry after a refreshed token is the source's
  recursive call \<open>this.fetch(endpoint, options)\<close>.
\<close>

fun api_fetch :: "(nat \<times> api_reply) list \<Rightarrow> string \<Rightarrow> string list \<Rightarrow> world
    \<Rightarrow> ((api_error + string) \<times> string list \<times> world) option" where
  "api_fetch replies endpoint sent w =
     (case getValidAccessToken w of
        None \<Rightarrow> None
      | Some (token, w1) \<Rightarrow>
          if \<not> truthy token then Some (Inl NoValidAccessToken, sent, w1)
          else
            (case replies of
               [] \<Rightarrow> None
             | (ms, reply) # rest \<Rightarrow>
                 (let w2 = w1\<lparr>now := now w1 + int ms\<rparr>;
                      sent2 = sent @ [the token]
                  in case reply of
                       ApiNetworkError \<Rightarrow> Some (Inl FetchRejected, sent2, w2)
                     | ApiResponse status statusText body \<Rightarrow>
                         if \<not> response_ok status then
                           (if status = 401 then
                              (case refreshAccessToken w2 of
                                 None \<Rightarrow> None
                               | Some (newToken, w3) \<Rightarrow>
                                   if truthy newToken then api_fetch rest endpoint sent2 w3
                                   else Some (Inl (SpotifyApiError status statusText), sent2, w3))
                            else Some (Inl (SpotifyApiError status statusText), sent2, w2))
                         else
                           (case body of
                              None \<Rightarrow> Some (Inl JsonRejected, sent2, w2)
                            | Some json \<Rightarrow> Some (Inr json, sent2, w2)))))"

declare api_fetch.simps [simp del]

section \<open>spotifyPlayer.ts\<close>

subsection \<open>Playback state and the remote player endpoint\<close>

record album =
  album_name :: string
  images :: "string list"

record current_track =
  track_id :: string
  track_name :: string
  artists :: "string list"
  track_album :: album
  duration_ms :: int

record track_window =
  current_track :: current_track

record PlayerState =
  paused :: bool
  position :: int
  duration :: int
  track_window :: track_window

text \<open>The JSON of \<open>GET /me/player\<close>; \<open>item\<close> may be missing.\<close>

record api_item =
  item_id :: string
  item_name :: string
  item_artists :: "string list"
  item_album :: "album option"
  item_duration_ms :: int

record api_player =
  is_playing :: bool
  progress_ms :: int
  item :: "api_item option"

datatype player_reply = PlayerFetchRejected | PlayerResponse nat "api_player option"

text \<open>
  \<open>fetchRemoteState\<close>, given what its two awaits resume with: the token of
  \<open>SpotifyAuth.getValidAccessToken()\<close> and the reply of the request. Every failure is
  caught and gives \<open>null\<close>.
\<close>

definition fetchRemoteState :: "string option \<Rightarrow> player_reply \<Rightarrow> PlayerState option" where
  "fetchRemoteState token reply =
     (if \<not> truthy token then None
      else
        (case reply of
           PlayerFetchRejected \<Rightarrow> None
         | PlayerResponse status body \<Rightarrow>
             if status = 204 then None
             else if \<not> response_ok status then None
             else
               (case body of
                  None \<Rightarrow> None
                | Some data \<Rightarrow>
                    Some \<lparr>paused = \<not> is_playing data,
                          position = progress_ms data,
                          duration = (case item data of None \<Rightarrow> 0 | Some i \<Rightarrow> item_duration_ms i),
                          track_window = \<lparr>current_track =
                            \<lparr>track_id = (case item data of None \<Rightarrow> [] | Some i \<Rightarrow> item_id i),
                             track_name = (case item data of None \<Rightarrow> [] | Some i \<Rightarrow> item_name i),
                             artists = (case item data of None \<Rightarrow> [] | Some i \<Rightarrow> item_artists i),
                             track_album =
                               (case item data of
                                  None \<Rightarrow> \<lparr>album_name = [], images = []\<rparr>
                                | Some i \<Rightarrow>
                                    (case item_album i of
                                       None \<Rightarrow> \<lparr>album_name = [], images = []\<rparr>
                                     | Some a \<Rightarrow> a)),
                             duration_ms = (case item data of None \<Rightarrow> 0 | Some i \<Rightarrow> item_duration_ms i)\<rparr>\<rparr>\<rparr>)))"

subsection \<open>JSON bodies\<close>

datatype json = JString string | JArray "json list" | JObject "(string \<times> json) list"

definition hexDigit :: "nat \<Rightarrow> char" where
  "hexDigit d = (if d < 10 then char_of (48 + d) else char_of (87 + d))"

text \<open>\<open>JSON.stringify\<close> of a string: quotes, backslashes and control characters escaped.\<close>

definition escapeChar :: "char \<Rightarrow> string" where
  "escapeChar c =
     (let n = (of_char c :: nat) in
      if c = CHR 0x22 then [CHR 0x5C, CHR 0x22]
      else if c = CHR 0x5C then [CHR 0x5C, CHR 0x5C]
      else if n = 8 then [CHR 0x5C, CHR ''b'']
      else if n = 9 then [CHR 0x5C, CHR ''t'']
      else if n = 10 then [CHR 0x5C, CHR ''n'']
      else if n = 12 then [CHR 0x5C, CHR ''f'']
      else if n = 13 then [CHR 0x5C, CHR ''r'']
      else if n < 32 then [CHR 0x5C, CHR ''u'', CHR ''0'', CHR ''0'', hexDigit (n div 16), hexDigit (n mod 16)]
      else [c])"

definition quoteJSON :: "string \<Rightarrow> string" where
  "quoteJSON s = CHR 0x22 # concat (map escapeChar s) @ [CHR 0x22]"

fun joinComma :: "string list \<Rightarrow> string" where
  "joinComma [] = []"
| "joinComma [x] = x"
| "joinComma (x # y # ys) = x @ CHR '','' # joinComma (y # ys)"

fun JSON_stringify :: "json \<Rightarrow> string" where
  "JSON_stringify (JString s) = quoteJSON s"
| "JSON_stringify (JArray xs) = CHR ''['' # joinComma (map JSON_stringify xs) @ [CHR '']'']"
| "JSON_stringify (JObject kvs) =
     CHR ''{'' # joinComma (map (\<lambda>(k, v). quoteJSON k @ CHR '':'' # JSON_stringify v) kvs) @ [CHR ''}'']"

subsection \<open>The engine and the browser around it\<close>

datatype event_name =
    ready | not_ready | player_state_changed | initialization_error
  | authentication_error | account_error | playback_error

datatype sdk_event =
    Ready string
  | NotReady string
  | PlayerStateChanged "PlayerState option"
  | InitializationError string
  | AuthenticationError string
  | AccountError string
  | PlaybackError string

fun name_of :: "sdk_event \<Rightarrow> event_name" where
  "name_of (Ready _) = ready"
| "name_of (NotReady _) = not_ready"
| "name_of (PlayerStateChanged _) = player_state_changed"
| "name_of (InitializationError _) = initialization_error"
| "name_of (AuthenticationError _) = authentication_error"
| "name_of (AccountError _) = account_error"
| "name_of (PlaybackError _) = playback_error"

text \<open>
  The listeners the code registers: the seven of \<open>setupEventListeners\<close>, named by their
  event, and the closures \<open>onReady\<close> and \<open>onError\<close> of one call of \<open>initialize\<close>,
  named by the number of that call.
\<close>

datatype listener = Setup event_name | OnReady nat | OnError nat

text \<open>What a timer runs: the fallback of a call of \<open>initialize\<close>, or \<open>pollRemoteState\<close>.\<close>

datatype timer_callback = FallbackTimeout nat | PollRemoteState

datatype timer = Timeout nat timer_callback | Interval nat timer_callback

datatype sdk_call =
    NewPlayer nat
  | AddListener nat event_name listener
  | RemoveListener nat event_name listener
  | Connect nat
  | Disconnect nat
  | GetCurrentState nat
  | Pause nat
  | Resume nat
  | TogglePlay nat
  | NextTrack nat
  | PreviousTrack nat
  | Seek nat int
  | SetVolume nat real

datatype http_request = Http string string string "string option"

text \<open>
  The fields of the class \<open>SpotifyPlayer\<close> come first. The rest is the browser and the
  vendor SDK as far as the class acts on them: a counter for fresh handles, the listeners
  registered on each SDK player, the timers that are set, the calls of
  \<open>pollRemoteState\<close> whose request is in flight (with whether \<open>startRemotePolling\<close>
  awaits them), the calls of \<open>initialize\<close> with their timeout handle, the calls whose
  \<open>connect()\<close> has not settled, the values the promises of \<open>initialize\<close> resolved to,
  and the effects in the order they happened: calls into the SDK, HTTP requests, subscriber
  callbacks invoked, alerts, and fire-and-forget token refreshes.
\<close>

record SpotifyPlayer =
  player :: "nat option"
  deviceId :: "string option"
  useRemote :: bool
  pollInterval :: "nat option"
  stateCallbacks :: "nat list"
  next_handle :: nat
  listeners :: "(nat \<times> event_name \<times> listener) list"
  timers :: "(nat \<times> timer) list"
  in_flight :: "(nat \<times> bool) list"
  init_timeout :: "(nat \<times> nat) list"
  connecting :: "nat list"
  resolved :: "(nat \<times> bool) list"
  sdk_calls :: "sdk_call list"
  requests :: "http_request list"
  delivered :: "(nat \<times> PlayerState option) list"
  alerts :: "string list"
  auth_refreshes :: nat

text \<open>\<open>new SpotifyPlayer()\<close> in a browser where nothing has happened yet.\<close>

definition new_SpotifyPlayer :: SpotifyPlayer where
  "new_SpotifyPlayer =
     \<lparr>player = None, deviceId = None, useRemote = False, pollInterval = None,
      stateCallbacks = [], next_handle = 1, listeners = [], timers = [], in_flight = [],
      init_timeout = [], connecting = [], resolved = [], sdk_calls = [], requests = [],
      delivered = [], alerts = [], auth_refreshes = 0\<rparr>"

definition clearTimer :: "nat \<Rightarrow> SpotifyPlayer \<Rightarrow> SpotifyPlayer" where
  "clearTimer t s = s\<lparr>timers := filter (\<lambda>(i, _). i \<noteq> t) (timers s)\<rparr>"

definition setTimer :: "timer \<Rightarrow> SpotifyPlayer \<Rightarrow> nat \<times> SpotifyPlayer" where
  "setTimer tm s =
     (next_handle s, s\<lparr>timers := timers s @ [(next_handle s, tm)], next_handle := Suc (next_handle s)\<rparr>)"

text \<open>\<open>clearTimeout(timeout)\<close> inside the closures of call \<open>a\<close> of \<open>initialize\<close>.\<close>

definition clearInitTimeout :: "nat \<Rightarrow> SpotifyPlayer \<Rightarrow> SpotifyPlayer" where
  "clearInitTimeout a s = (case map_of (init_timeout s) a of None \<Rightarrow> s | Some t \<Rightarrow> clearTimer t s)"

text \<open>\<open>resolve(v)\<close> of the promise of call \<open>a\<close>: only the first call settles it.\<close>

definition resolve :: "nat \<Rightarrow> bool \<Rightarrow> SpotifyPlayer \<Rightarrow> SpotifyPlayer" where
  "resolve a v s = (case map_of (resolved s) a of None \<Rightarrow> s\<lparr>resolved := resolved s @ [(a, v)]\<rparr> | Some _ \<Rightarrow> s)"

definition addListener :: "nat \<Rightarrow> event_name \<Rightarrow> listener \<Rightarrow> SpotifyPlayer \<Rightarrow> SpotifyPlayer" where
  "addListener p e l s =
     s\<lparr>listeners := listeners s @ [(p, e, l)], sdk_calls := sdk_calls s @ [AddListener p e l]\<rparr>"

text \<open>\<open>this.player?.removeListener(e, l)\<close>: on the player the field holds now, if any.\<close>

definition removeListener :: "event_name \<Rightarrow> listener \<Rightarrow> SpotifyPlayer \<Rightarrow> SpotifyPlayer" where
  "removeListener e l s =
     (case player s of
        None \<Rightarrow> s
      | Some p \<Rightarrow> s\<lparr>listeners := filter (\<lambda>x. x \<noteq> (p, e, l)) (listeners s),
                     sdk_calls := sdk_calls s @ [RemoveListener p e l]\<rparr>)"

definition notifyStateChange :: "PlayerState option \<Rightarrow> SpotifyPlayer \<Rightarrow> SpotifyPlayer" where
  "notifyStateChange state s =
     s\<lparr>delivered := delivered s @ map (\<lambda>callback. (callback, state)) (stateCallbacks s)\<rparr>"

text \<open>
  \<open>pollRemoteState\<close> up to its first await: the request is in flight. The flag says
  whether \<open>startRemotePolling\<close> is waiting for it to go on to \<open>setInterval\<close>.
\<close>

definition pollRemoteState :: "bool \<Rightarrow> SpotifyPlayer \<Rightarrow> SpotifyPlayer" where
  "pollRemoteState starting s =
     s\<lparr>in_flight := in_flight s @ [(next_handle s, starting)], next_handle := Suc (next_handle s)\<rparr>"

definition startRemotePolling :: "SpotifyPlayer \<Rightarrow> SpotifyPlayer" where
  "startRemotePolling s =
     pollRemoteState True (case pollInterval s of None \<Rightarrow> s | Some t \<Rightarrow> clearTimer t s)"

text \<open>
  The rest of \<open>pollRemoteState\<close>, when the request in flight settles: the state is mapped
  and handed to every subscriber; \<open>startRemotePolling\<close> then sets the interval.
\<close>

definition poll_settles :: "nat \<Rightarrow> string option \<Rightarrow> player_reply \<Rightarrow> SpotifyPlayer \<Rightarrow> SpotifyPlayer" where
  "poll_settles i token reply s =
     (case map_of (in_flight s) i of
        None \<Rightarrow> s
      | Some starting \<Rightarrow>
          (let s1 = s\<lparr>in_flight := filter (\<lambda>(j, _). j \<noteq> i) (in_flight s),
                       requests := requests s @
                         (if truthy token
                          then [Http ''GET'' ''https://api.spotify.com/v1/me/player'' (the token) None]
                          else [])\<rparr>;
               s2 = notifyStateChange (fetchRemoteState token reply) s1
           in if starting
              then (let (t, s3) = setTimer (Interval 3000 PollRemoteState) s2 in s3\<lparr>pollInterval := Some t\<rparr>)
              else s2))"

text \<open>The three ways of \<open>initialize\<close> into remote control.\<close>

definition timeout_fallback :: "nat \<Rightarrow> SpotifyPlayer \<Rightarrow> SpotifyPlayer" where
  "timeout_fallback a s = resolve a True (startRemotePolling (s\<lparr>useRemote := True\<rparr>))"

definition discard_player :: "SpotifyPlayer \<Rightarrow> SpotifyPlayer" where
  "discard_player s =
     (case player s of
        None \<Rightarrow> s
      | Some p \<Rightarrow> s\<lparr>sdk_calls := sdk_calls s @ [Disconnect p]\<rparr>)\<lparr>player := None\<rparr>"

definition onReady :: "nat \<Rightarrow> string \<Rightarrow> SpotifyPlayer \<Rightarrow> SpotifyPlayer" where
  "onReady a device_id s =
     resolve a True
       ((removeListener authentication_error (OnError a)
          (removeListener initialization_error (OnError a)
            (removeListener ready (OnReady a)
              (clearInitTimeout a s))))\<lparr>deviceId := Some device_id\<rparr>)"

definition onError :: "nat \<Rightarrow> SpotifyPlayer \<Rightarrow> SpotifyPlayer" where
  "onError a s =
     resolve a True
       (startRemotePolling
         ((discard_player
            (removeListener authentication_error (OnError a)
              (removeListener initialization_error (OnError a)
                (removeListener ready (OnReady a)
                  (clearInitTimeout a s)))))\<lparr>useRemote := True\<rparr>))"

definition connect_settles :: "nat \<Rightarrow> bool \<Rightarrow> SpotifyPlayer \<Rightarrow> SpotifyPlayer" where
  "connect_settles a success s =
     (if a \<notin> set (connecting s) then s
      else
        (let s1 = s\<lparr>connecting := removeAll a (connecting s)\<rparr> in
         if \<not> success
         then resolve a True
                (startRemotePolling ((discard_player (clearInitTimeout a s1))\<lparr>useRemote := True\<rparr>))
         else s1))"

text \<open>One listener run on one event of the SDK.\<close>

fun run_listener :: "listener \<Rightarrow> sdk_event \<Rightarrow> SpotifyPlayer \<Rightarrow> SpotifyPlayer" where
  "run_listener (Setup ready) (Ready device_id) s = s\<lparr>deviceId := Some device_id\<rparr>"
| "run_listener (Setup not_ready) (NotReady device_id) s = s\<lparr>deviceId := None\<rparr>"
| "run_listener (Setup player_state_changed) (PlayerStateChanged state) s = notifyStateChange state s"
| "run_listener (Setup authentication_error) (AuthenticationError message) s =
     s\<lparr>auth_refreshes := Suc (auth_refreshes s)\<rparr>"
| "run_listener (Setup account_error) (AccountError message) s =
     s\<lparr>alerts := alerts s @
        [''Spotify Premium is required for playback. Please upgrade your account.'']\<rparr>"
| "run_listener (OnReady a) (Ready device_id) s = onReady a device_id s"
| "run_listener (OnError a) (InitializationError message) s = onError a s"
| "run_listener (OnError a) (AuthenticationError message) s = onError a s"
| "run_listener _ _ s = s"

text \<open>The SDK player \<open>p\<close> emits an event: its listeners for that event run in order.\<close>

definition sdk_emits :: "nat \<Rightarrow> sdk_event \<Rightarrow> SpotifyPlayer \<Rightarrow> SpotifyPlayer" where
  "sdk_emits p ev s =
     fold (\<lambda>l. run_listener l ev)
       (map (\<lambda>(_, _, l). l) (filter (\<lambda>(q, e, _). q = p \<and> e = name_of ev) (listeners s))) s"

fun run_timer_callback :: "timer_callback \<Rightarrow> SpotifyPlayer \<Rightarrow> SpotifyPlayer" where
  "run_timer_callback (FallbackTimeout a) s = timeout_fallback a s"
| "run_timer_callback PollRemoteState s = pollRemoteState False s"

definition timer_fires :: "nat \<Rightarrow> SpotifyPlayer \<Rightarrow> SpotifyPlayer" where
  "timer_fires t s =
     (case map_of (timers s) t of
        None \<Rightarrow> s
      | Some (Timeout _ cb) \<Rightarrow> run_timer_callback cb (clearTimer t s)
      | Some (Interval _ cb) \<Rightarrow> run_timer_callback cb s)"

subsection \<open>The methods of the class\<close>

text \<open>
  A method takes, besides its arguments, what each of its awaits resumes with: the token
  of \<open>SpotifyAuth.getValidAccessToken()\<close> and how the \<open>fetch\<close> settles. The methods run
  to their end in one step; only the promise of \<open>initialize\<close> and a poll in flight stay
  open across events.
\<close>

datatype sdk_load = SdkPresent | SdkLoads | SdkLoadFails

datatype init_result = InitReturns bool | InitRejects | InitPending nat

definition setupEventListeners :: "SpotifyPlayer \<Rightarrow> SpotifyPlayer" where
  "setupEventListeners s =
     (case player s of
        None \<Rightarrow> s
      | Some p \<Rightarrow>
          addListener p playback_error (Setup playback_error)
            (addListener p account_error (Setup account_error)
              (addListener p authentication_error (Setup authentication_error)
                (addListener p initialization_error (Setup initialization_error)
                  (addListener p player_state_changed (Setup player_state_changed)
                    (addListener p not_ready (Setup not_ready)
                      (addListener p ready (Setup ready) s)))))))"

text \<open>
  \<open>initialize\<close>. The SDK script is there, loads, or fails to load (then \<open>loadSDK\<close>
  rejects and so does \<open>initialize\<close>, outside its \<open>try\<close>). The constructor of the SDK
  player is taken not to throw. Call number \<open>a\<close> is the handle of its player.
\<close>

definition initialize :: "sdk_load \<Rightarrow> string option \<Rightarrow> SpotifyPlayer \<Rightarrow> init_result \<times> SpotifyPlayer" where
  "initialize sdk token s =
     (if player s \<noteq> None then (InitReturns True, s)
      else if sdk = SdkLoadFails then (InitRejects, s)
      else if \<not> truthy token then (InitReturns False, s)
      else
        (let a = next_handle s;
             s1 = s\<lparr>player := Some a, next_handle := Suc a, sdk_calls := sdk_calls s @ [NewPlayer a]\<rparr>;
             s2 = setupEventListeners s1;
             (t, s3) = setTimer (Timeout 5000 (FallbackTimeout a)) s2;
             s4 = s3\<lparr>init_timeout := (a, t) # init_timeout s3\<rparr>;
             s5 = addListener a authentication_error (OnError a)
                    (addListener a initialization_error (OnError a)
                      (addListener a ready (OnReady a) s4));
             s6 = s5\<lparr>sdk_calls := sdk_calls s5 @ [Connect a], connecting := connecting s5 @ [a]\<rparr>
         in (InitPending a, s6)))"

text \<open>\<open>stateCallbacks\<close> is a \<open>Set\<close>: insertion order, no duplicates.\<close>

definition onStateChange :: "nat \<Rightarrow> SpotifyPlayer \<Rightarrow> SpotifyPlayer" where
  "onStateChange callback s =
     (if callback \<in> set (stateCallbacks s) then s
      else s\<lparr>stateCallbacks := stateCallbacks s @ [callback]\<rparr>)"

definition unsubscribe :: "nat \<Rightarrow> SpotifyPlayer \<Rightarrow> SpotifyPlayer" where
  "unsubscribe callback s = s\<lparr>stateCallbacks := removeAll callback (stateCallbacks s)\<rparr>"

definition getCurrentState ::
  "string option \<Rightarrow> player_reply \<Rightarrow> PlayerState option \<Rightarrow> SpotifyPlayer
    \<Rightarrow> PlayerState option \<times> SpotifyPlayer" where
  "getCurrentState token reply local s =
     (if useRemote s then
        (fetchRemoteState token reply,
         s\<lparr>requests := requests s @
             (if truthy token
              then [Http ''GET'' ''https://api.spotify.com/v1/me/player'' (the token) None]
              else [])\<rparr>)
      else
        (case player s of
           None \<Rightarrow> (None, s)
         | Some p \<Rightarrow> (local, s\<lparr>sdk_calls := sdk_calls s @ [GetCurrentState p]\<rparr>)))"

datatype play_reply = PlayFetchRejected | PlayResponse nat string

datatype player_error =
    NoDeviceId
  | NoValidToken
  | NoActiveDevice
  | FailedToPlay nat string
  | FetchFailed

text \<open>The body \<open>play\<close> builds from its optional argument.\<close>

definition play_body :: "string option \<Rightarrow> json" where
  "play_body uri =
     (if truthy uri then
        (if js_includes (the uri) ''playlist'' \<or> js_includes (the uri) ''album''
         then JObject [(''context_uri'', JString (the uri))]
         else JObject [(''uris'', JArray [JString (the uri)])])
      else JObject [])"

definition play ::
  "string option \<Rightarrow> string option \<Rightarrow> play_reply \<Rightarrow> SpotifyPlayer
    \<Rightarrow> player_error option \<times> SpotifyPlayer" where
  "play uri token reply s =
     (if \<not> truthy (deviceId s) \<and> \<not> useRemote s then (Some NoDeviceId, s)
      else if \<not> truthy token then (Some NoValidToken, s)
      else
        (let body = play_body uri;
             url = (if useRemote s then ''https://api.spotify.com/v1/me/player/play''
                    else ''https://api.spotify.com/v1/me/player/play?device_id=''
                           @ (case deviceId s of None \<Rightarrow> ''null'' | Some d \<Rightarrow> d));
             s1 = s\<lparr>requests := requests s @ [Http ''PUT'' url (the token) (Some (JSON_stringify body))]\<rparr>
         in case reply of
              PlayFetchRejected \<Rightarrow> (Some FetchFailed, s1)
            | PlayResponse status statusText \<Rightarrow>
                if \<not> response_ok status then
                  (if status = 404 \<and> useRemote s then (Some NoActiveDevice, s1)
                   else (Some (FailedToPlay status statusText), s1))
                else (None, s1)))"

text \<open>\<open>fetch\<close> either rejects (the method then throws) or resolves, with any status.\<close>

datatype fetch_settles = FetchRejects | FetchResolves

definition remoteControl ::
  "string \<Rightarrow> string \<Rightarrow> string option \<Rightarrow> fetch_settles \<Rightarrow> SpotifyPlayer
    \<Rightarrow> player_error option \<times> SpotifyPlayer" where
  "remoteControl method endpoint token settles s =
     (if \<not> truthy token then (None, s)
      else
        (let s1 = s\<lparr>requests := requests s @
                    [Http method (''https://api.spotify.com/v1/me/player/'' @ endpoint) (the token) None]\<rparr>
         in case settles of
              FetchRejects \<Rightarrow> (Some FetchFailed, s1)
            | FetchResolves \<Rightarrow> (None, snd (setTimer (Timeout 200 PollRemoteState) s1))))"

definition pause :: "string option \<Rightarrow> fetch_settles \<Rightarrow> SpotifyPlayer \<Rightarrow> player_error option \<times> SpotifyPlayer" where
  "pause token settles s =
     (if useRemote s then remoteControl ''PUT'' ''pause'' token settles s
      else (case player s of
              None \<Rightarrow> (None, s)
            | Some p \<Rightarrow> (None, s\<lparr>sdk_calls := sdk_calls s @ [Pause p]\<rparr>)))"

definition resume :: "string option \<Rightarrow> fetch_settles \<Rightarrow> SpotifyPlayer \<Rightarrow> player_error option \<times> SpotifyPlayer" where
  "resume token settles s =
     (if useRemote s then remoteControl ''PUT'' ''play'' token settles s
      else (case player s of
              None \<Rightarrow> (None, s)
            | Some p \<Rightarrow> (None, s\<lparr>sdk_calls := sdk_calls s @ [Resume p]\<rparr>)))"

text \<open>
  \<open>togglePlay\<close> in remote control first asks for the state (one token, one reply) and
  then resumes or pauses (a second token, a second fetch).
\<close>

definition togglePlay ::
  "string option \<Rightarrow> player_reply \<Rightarrow> string option \<Rightarrow> fetch_settles \<Rightarrow> SpotifyPlayer
    \<Rightarrow> player_error option \<times> SpotifyPlayer" where
  "togglePlay token reply token2 settles s =
     (if useRemote s then
        (let (state, s1) = getCurrentState token reply None s in
         if (case state of None \<Rightarrow> False | Some st \<Rightarrow> paused st)
         then resume token2 settles s1
         else pause token2 settles s1)
      else (case player s of
              None \<Rightarrow> (None, s)
            | Some p \<Rightarrow> (None, s\<lparr>sdk_calls := sdk_calls s @ [TogglePlay p]\<rparr>)))"

definition nextTrack :: "string option \<Rightarrow> fetch_settles \<Rightarrow> SpotifyPlayer \<Rightarrow> player_error option \<times> SpotifyPlayer" where
  "nextTrack token settles s =
     (if useRemote s then remoteControl ''POST'' ''next'' token settles s
      else (case player s of
              None \<Rightarrow> (None, s)
            | Some p \<Rightarrow> (None, s\<lparr>sdk_calls := sdk_calls s @ [NextTrack p]\<rparr>)))"

definition previousTrack :: "string option \<Rightarrow> fetch_settles \<Rightarrow> SpotifyPlayer \<Rightarrow> player_error option \<times> SpotifyPlayer" where
  "previousTrack token settles s =
     (if useRemote s then remoteControl ''POST'' ''previous'' token settles s
      else (case player s of
              None \<Rightarrow> (None, s)
            | Some p \<Rightarrow> (None, s\<lparr>sdk_calls := sdk_calls s @ [PreviousTrack p]\<rparr>)))"

definition seek :: "int \<Rightarrow> string option \<Rightarrow> fetch_settles \<Rightarrow> SpotifyPlayer \<Rightarrow> player_error option \<times> SpotifyPlayer" where
  "seek positionMs token settles s =
     (if useRemote s then
        (if \<not> truthy token then (None, s)
         else
           (let s1 = s\<lparr>requests := requests s @
                       [Http ''PUT'' (''https://api.spotify.com/v1/me/player/seek?position_ms='' @ toString positionMs)
                          (the token) None]\<rparr>
            in case settles of
                 FetchRejects \<Rightarrow> (Some FetchFailed, s1)
               | FetchResolves \<Rightarrow> (None, s1)))
      else (case player s of
              None \<Rightarrow> (None, s)
            | Some p \<Rightarrow> (None, s\<lparr>sdk_calls := sdk_calls s @ [Seek p positionMs]\<rparr>)))"

text \<open>\<open>Math.round(volume * 100)\<close>, in exact arithmetic: the nearest integer, halves up.\<close>

definition Math_round :: "real \<Rightarrow> int" where
  "Math_round x = \<lfloor>x + 1 / 2\<rfloor>"

definition setVolume :: "real \<Rightarrow> string option \<Rightarrow> fetch_settles \<Rightarrow> SpotifyPlayer \<Rightarrow> player_error option \<times> SpotifyPlayer" where
  "setVolume volume token settles s =
     (if useRemote s then
        (if \<not> truthy token then (None, s)
         else
           (let s1 = s\<lparr>requests := requests s @
                       [Http ''PUT'' (''https://api.spotify.com/v1/me/player/volume?volume_percent=''
                                        @ toString (Math_round (volume * 100)))
                          (the token) None]\<rparr>
            in case settles of
                 FetchRejects \<Rightarrow> (Some FetchFailed, s1)
               | FetchResolves \<Rightarrow> (None, s1)))
      else (case player s of
              None \<Rightarrow> (None, s)
            | Some p \<Rightarrow> (None, s\<lparr>sdk_calls := sdk_calls s @ [SetVolume p volume]\<rparr>)))"

definition disconnect :: "SpotifyPlayer \<Rightarrow> SpotifyPlayer" where
  "disconnect s =
     (case player s of
        None \<Rightarrow> s
      | Some p \<Rightarrow> s\<lparr>sdk_calls := sdk_calls s @ [Disconnect p], player := None, deviceId := None\<rparr>)"

definition getDeviceId :: "SpotifyPlayer \<Rightarrow> string option" where
  "getDeviceId s = deviceId s"

subsection \<open>Everything that can happen to an engine\<close>

text \<open>The transport methods and the state query, each with what its awaits resume with.\<close>

datatype transport =
    CallPlay "string option" "string option" play_reply
  | CallPause "string option" fetch_settles
  | CallResume "string option" fetch_settles
  | CallTogglePlay "string option" player_reply "string option" fetch_settles
  | CallNextTrack "string option" fetch_settles
  | CallPreviousTrack "string option" fetch_settles
  | CallSeek int "string option" fetch_settles
  | CallSetVolume real "string option" fetch_settles
  | CallGetCurrentState "string option" player_reply "PlayerState option"

datatype event =
    TimerFires nat
  | SdkEmits nat sdk_event
  | ConnectSettles nat bool
  | PollSettles nat "string option" player_reply
  | CallInitialize sdk_load "string option"
  | CallOnStateChange nat
  | CallUnsubscribe nat
  | CallDisconnect
  | Call transport

fun call :: "transport \<Rightarrow> SpotifyPlayer \<Rightarrow> SpotifyPlayer" where
  "call (CallPlay uri token reply) s = snd (play uri token reply s)"
| "call (CallPause token settles) s = snd (pause token settles s)"
| "call (CallResume token settles) s = snd (resume token settles s)"
| "call (CallTogglePlay token reply token2 settles) s = snd (togglePlay token reply token2 settles s)"
| "call (CallNextTrack token settles) s = snd (nextTrack token settles s)"
| "call (CallPreviousTrack token settles) s = snd (previousTrack token settles s)"
| "call (CallSeek positionMs token settles) s = snd (seek positionMs token settles s)"
| "call (CallSetVolume volume token settles) s = snd (setVolume volume token settles s)"
| "call (CallGetCurrentState token reply local) s = snd (getCurrentState token reply local s)"

fun step :: "SpotifyPlayer \<Rightarrow> event \<Rightarrow> SpotifyPlayer" where
  "step s (TimerFires t) = timer_fires t s"
| "step s (SdkEmits p ev) = sdk_emits p ev s"
| "step s (ConnectSettles a success) = connect_settles a success s"
| "step s (PollSettles i token reply) = poll_settles i token reply s"
| "step s (CallInitialize sdk token) = snd (initialize sdk token s)"
| "step s (CallOnStateChange callback) = onStateChange callback s"
| "step s (CallUnsubscribe callback) = unsubscribe callback s"
| "step s CallDisconnect = disconnect s"
| "step s (Call c) = call c s"

definition run :: "SpotifyPlayer \<Rightarrow> event list \<Rightarrow> SpotifyPlayer" where
  "run s evs = foldl step s evs"

text \<open>The tokens a transport call resumes with are all usable.\<close>

fun with_token :: "transport \<Rightarrow> bool" where
  "with_token (CallPlay uri token reply) = truthy token"
| "with_token (CallPause token settles) = truthy token"
| "with_token (CallResume token settles) = truthy token"
| "with_token (CallTogglePlay token reply token2 settles) = (truthy token \<and> truthy token2)"
| "with_token (CallNextTrack token settles) = truthy token"
| "with_token (CallPreviousTrack token settles) = truthy token"
| "with_token (CallSeek positionMs token settles) = truthy token"
| "with_token (CallSetVolume volume token settles) = truthy token"
| "with_token (CallGetCurrentState token reply local) = truthy token"

text \<open>
  The requests of the remote HTTP path go to the player endpoints of the Web API and
  name no device: they are not the request \<open>play?device_id=...\<close> of local mode.
\<close>

fun remote_request :: "http_request \<Rightarrow> bool" where
  "remote_request (Http method url token body) =
     (prefix ''https://api.spotify.com/v1/me/player'' url
      \<and> \<not> prefix ''https://api.spotify.com/v1/me/player/play?device_id='' url)"

section \<open>Notions of the specification and example states\<close>

text \<open>
  Following the words of the specification, not the code: the resource-type segment of
  a URI \<open>spotify:<type>:<id>\<close> is what stands between the first and the second colon.
\<close>

definition resource_type :: "string \<Rightarrow> string" where
  "resource_type uri = takeWhile (\<lambda>c. c \<noteq> CHR '':'') (drop 1 (dropWhile (\<lambda>c. c \<noteq> CHR '':'') uri))"

text \<open>
  The connection handshake as the SDK sees it: a player is constructed, the seven
  listeners of \<open>setupEventListeners\<close> and the three of the promise are registered, and
  \<open>connect()\<close> is called.
\<close>

definition handshake :: "nat \<Rightarrow> sdk_call list" where
  "handshake a =
     [NewPlayer a,
      AddListener a ready (Setup ready),
      AddListener a not_ready (Setup not_ready),
      AddListener a player_state_changed (Setup player_state_changed),
      AddListener a initialization_error (Setup initialization_error),
      AddListener a authentication_error (Setup authentication_error),
      AddListener a account_error (Setup account_error),
      AddListener a playback_error (Setup playback_error),
      AddListener a ready (OnReady a),
      AddListener a initialization_error (OnError a),
      AddListener a authentication_error (OnError a),
      Connect a]"

text \<open>The engine after a first call of \<open>initialize\<close> on a new object, its promise pending.\<close>

definition first_call :: "sdk_load \<Rightarrow> string \<Rightarrow> SpotifyPlayer" where
  "first_call sdk token = snd (initialize sdk (Some token) new_SpotifyPlayer)"

text \<open>A second call that returns true at once and changes nothing.\<close>

definition second_call_noop :: "sdk_load \<Rightarrow> string \<Rightarrow> SpotifyPlayer \<Rightarrow> bool" where
  "second_call_noop sdk token s = (initialize sdk (Some token) s = (InitReturns True, s))"

text \<open>A second call that goes through the handshake again and leaves its promise pending.\<close>

definition second_call_handshake :: "sdk_load \<Rightarrow> string \<Rightarrow> SpotifyPlayer \<Rightarrow> bool" where
  "second_call_handshake sdk token s =
     (fst (initialize sdk (Some token) s) = InitPending (next_handle s)
      \<and> sdk_calls (snd (initialize sdk (Some token) s)) = sdk_calls s @ handshake (next_handle s))"

text \<open>
  The promise of a second call resolves to true on each of its five outcomes: a
  \<open>ready\<close> event, the timeout, an initialization or authentication error, and
  \<open>connect()\<close> giving false.
\<close>

definition second_call_resolves :: "sdk_load \<Rightarrow> string \<Rightarrow> string \<Rightarrow> string \<Rightarrow> SpotifyPlayer \<Rightarrow> bool" where
  "second_call_resolves sdk token d m s =
     (let a = next_handle s; s' = snd (initialize sdk (Some token) s) in
      resolved (step s' (SdkEmits a (Ready d))) = resolved s @ [(a, True)]
      \<and> resolved (step s' (TimerFires (Suc a))) = resolved s @ [(a, True)]
      \<and> resolved (step s' (SdkEmits a (InitializationError m))) = resolved s @ [(a, True)]
      \<and> resolved (step s' (SdkEmits a (AuthenticationError m))) = resolved s @ [(a, True)]
      \<and> resolved (step s' (ConnectSettles a False)) = resolved s @ [(a, True)])"

text \<open>A browser with empty storage, and a token endpoint reply that grants a token for an hour.\<close>

definition browser0 :: world where
  "browser0 = \<lparr>localStorage = Map.empty, now = 1000, location_search = [],
     token_endpoint = [], token_requests = []\<rparr>"

definition grant :: "string \<Rightarrow> token_reply" where
  "grant a = TokenResponse True (Some \<lparr>access_token = a, refresh_token = None, expires_in = 3600\<rparr>)"

text \<open>A session with a valid token, whose next two refreshes will be granted.\<close>

definition session0 :: world where
  "session0 = (storeTokens ''tok0'' ''ref0'' 3600 browser0)
      \<lparr>token_endpoint := [(0, grant ''tok1''), (0, grant ''tok1'')]\<rparr>"

text \<open>A callback URL with a code, a stored verifier, and a token endpoint that will answer.\<close>

definition callback_with_code :: world where
  "callback_with_code = (setItem CODE_VERIFIER_KEY ''verifier'' browser0)
      \<lparr>location_search := [(''code'', ''abc'')], token_endpoint := [(5, grant ''tok'')]\<rparr>"

text \<open>A callback URL on which the provider reports an error, with a stored verifier.\<close>

definition callback_with_error :: world where
  "callback_with_error = (setItem CODE_VERIFIER_KEY ''verifier'' browser0)
      \<lparr>location_search := [(''error'', ''access_denied'')]\<rparr>"

text \<open>Storage with a stale access token and its expiry, and no refresh token.\<close>

definition stale_without_refresh :: world where
  "stale_without_refresh = setItem TOKEN_EXPIRY_KEY ''0'' (setItem ACCESS_TOKEN_KEY ''stale'' browser0)"

text \<open>A session whose refresh request will meet a network error.\<close>

definition session_offline :: world where
  "session_offline = (storeTokens ''tok0'' ''ref0'' 0 browser0)\<lparr>token_endpoint := [(0, NetworkError)]\<rparr>"

text \<open>A session with a valid token, whose next refresh will meet a network error.\<close>

definition session_rejected :: world where
  "session_rejected = (storeTokens ''tok0'' ''ref0'' 3600 browser0)\<lparr>token_endpoint := [(0, NetworkError)]\<rparr>"

text \<open>
  An engine with one subscriber that fell back to remote control on an initialization
  error of the SDK, and whose first poll has come back, so that the interval is set.
\<close>

definition after_error_fallback :: SpotifyPlayer where
  "after_error_fallback = run new_SpotifyPlayer
     [CallOnStateChange 7, CallInitialize SdkPresent (Some ''tok''),
      SdkEmits 1 (InitializationError ''failed''),
      PollSettles 3 (Some ''tok'') (PlayerResponse 204 None)]"

text \<open>An engine that fell back to remote control on the timeout, the interval set.\<close>

definition remote_engine :: SpotifyPlayer where
  "remote_engine = run new_SpotifyPlayer
     [CallInitialize SdkPresent (Some ''tok''), TimerFires 2,
      PollSettles 3 (Some ''tok'') (PlayerResponse 204 None)]"

section \<open>Numbers written and read back\<close>

lemma digitValue_digitChar: "d < 10 \<Longrightarrow> digitValue (digitChar d) = d"
  by (simp add: digitValue_def digitChar_def Let_def)

lemma natToString_digits: "c \<in> set (natToString n) \<Longrightarrow> digitValue c < 10"
proof (induction n arbitrary: c rule: natToString.induct)
  case (1 n)
  show ?case
  proof (cases "n < 10")
    case True
    with "1.prems" show ?thesis
      by (simp add: natToString.simps [of n] digitValue_digitChar)
  next
    case False
    with "1.prems" "1.IH" show ?thesis
      by (auto simp: natToString.simps [of n] digitValue_digitChar)
  qed
qed

lemma natToString_nonempty: "natToString n \<noteq> []"
  by (subst natToString.simps) simp

lemma toString_nonempty: "toString i \<noteq> []"
  by (simp add: toString_def natToString_nonempty)

lemma natToString_value: "foldl (\<lambda>acc c. acc * 10 + digitValue c) 0 (natToString n) = n"
proof (induction n rule: natToString.induct)
  case (1 n)
  show ?case
  proof (cases "n < 10")
    case True
    then show ?thesis
      by (simp add: natToString.simps [of n] digitValue_digitChar)
  next
    case False
    with "1.IH" show ?thesis
      by (simp add: natToString.simps [of n] digitValue_digitChar)
  qed
qed

lemma digit_not_space: "digitValue c < 10 \<Longrightarrow> \<not> isWhiteSpace c"
  by (auto simp: digitValue_def isWhiteSpace_def Let_def)

lemma digit_not_sign:
  "digitValue c < 10 \<Longrightarrow> c \<noteq> CHR ''-'' \<and> c \<noteq> CHR ''+'' \<and> c \<noteq> CHR ''x'' \<and> c \<noteq> CHR ''X''"
  by (auto simp: digitValue_def Let_def)

lemma parseInt_digits:
  assumes "ds \<noteq> []" and "\<forall>c \<in> set ds. digitValue c < 10"
  shows "parseInt ds = Some (int (foldl (\<lambda>acc c. acc * 10 + digitValue c) 0 ds))"
proof -
  obtain d rest where ds: "ds = d # rest" using assms(1) by (cases ds) auto
  have d: "digitValue d < 10" using assms(2) ds by simp
  have nohex: "(case ds of a # b # _ \<Rightarrow> a = CHR ''0'' \<and> (b = CHR ''x'' \<or> b = CHR ''X'') | _ \<Rightarrow> False) = False"
    using assms(2) ds digit_not_sign by (cases rest) auto
  have tw: "takeWhile (\<lambda>c. digitValue c < 10) ds = ds"
    using assms(2) by (simp add: takeWhile_eq_all_conv)
  have dw: "dropWhile isWhiteSpace ds = ds"
    using d ds digit_not_space by simp
  have sg: "d \<noteq> CHR ''-''" "d \<noteq> CHR ''+''" using d digit_not_sign by auto
  show ?thesis
    unfolding parseInt_def dw Let_def
    using sg nohex tw assms(1) by (simp add: ds)
qed

lemma parseInt_neg_digits:
  assumes "ds \<noteq> []" and "\<forall>c \<in> set ds. digitValue c < 10"
  shows "parseInt (CHR ''-'' # ds) = Some (- int (foldl (\<lambda>acc c. acc * 10 + digitValue c) 0 ds))"
proof -
  obtain d rest where ds: "ds = d # rest" using assms(1) by (cases ds) auto
  have nohex: "(case ds of a # b # _ \<Rightarrow> a = CHR ''0'' \<and> (b = CHR ''x'' \<or> b = CHR ''X'') | _ \<Rightarrow> False) = False"
    using assms(2) ds digit_not_sign by (cases rest) auto
  have tw: "takeWhile (\<lambda>c. digitValue c < 10) ds = ds"
    using assms(2) by (simp add: takeWhile_eq_all_conv)
  have ws: "\<not> isWhiteSpace CHR ''-''" by (simp add: isWhiteSpace_def)
  show ?thesis
    unfolding parseInt_def Let_def
    using ws nohex tw assms(1) by (simp add: ds)
qed

text \<open>What \<open>storeTokens\<close> writes as the expiry, \<open>getAccessToken\<close> reads back as that number.\<close>

lemma parseInt_toString: "parseInt (toString i) = Some i"
proof (cases "i < 0")
  case True
  then show ?thesis
    using parseInt_neg_digits [of "natToString (nat (- i))"]
    by (simp add: toString_def natToString_nonempty natToString_digits natToString_value)
next
  case False
  then show ?thesis
    using parseInt_digits [of "natToString (nat i)"]
    by (simp add: toString_def natToString_nonempty natToString_digits natToString_value)
qed

lemma parseInt_NaN: "parseInt ''NaN'' = None"
  by (simp add: parseInt_def isWhiteSpace_def digitValue_def Let_def)

lemma parseInt_empty: "parseInt [] = None"
  by (simp add: parseInt_def)

lemma toString_1000: "toString 1000 = ''1000''"
  by code_simp

section \<open>The token store\<close>

lemmas key_defs = ACCESS_TOKEN_KEY_def REFRESH_TOKEN_KEY_def TOKEN_EXPIRY_KEY_def CODE_VERIFIER_KEY_def

lemmas store_defs = setItem_def removeItem_def getItem_def

lemma expired_no_token:
  assumes "getItem TOKEN_EXPIRY_KEY w = Some expiry" and "parseInt expiry = Some e" and "e \<le> now w"
  shows "getAccessToken w = None"
  using assms by (simp add: getAccessToken_def Let_def)

lemma storeTokens_expiry:
  "getItem TOKEN_EXPIRY_KEY ((storeTokens a r x w)\<lparr>now := t\<rparr>) = Some (toString (now w + x * 1000))"
  by (simp add: storeTokens_def store_defs Let_def)

lemma storeTokens_getAccessToken:
  assumes "a \<noteq> []" and "0 < x"
  shows "getAccessToken (storeTokens a r x w) = Some a"
  using assms
  by (simp add: getAccessToken_def storeTokens_def store_defs key_defs Let_def truthy_def
      parseInt_toString toString_nonempty)

lemma storeTokens_fields:
  "getItem REFRESH_TOKEN_KEY (storeTokens a r x w) = Some r"
  "token_endpoint (storeTokens a r x w) = token_endpoint w"
  "token_requests (storeTokens a r x w) = token_requests w"
  "now (storeTokens a r x w) = now w"
  by (simp_all add: storeTokens_def store_defs key_defs Let_def)

lemma getAccessToken_endpoint [simp]:
  "getAccessToken (w\<lparr>token_endpoint := x\<rparr>) = getAccessToken w"
  by (simp add: getAccessToken_def store_defs Let_def split: option.splits)

text \<open>
  Claim C10, as amended. When storage holds a non-empty access token and a non-empty
  expiry string that \<open>parseInt\<close> reads as \<open>NaN\<close>, \<open>getAccessToken\<close> returns the stored
  token: \<open>Date.now() >= NaN\<close> is false at every time.
\<close>

theorem getAccessToken_unparsable_expiry:
  assumes "getItem ACCESS_TOKEN_KEY w = Some token" and "token \<noteq> []"
    and "getItem TOKEN_EXPIRY_KEY w = Some expiry" and "expiry \<noteq> []"
    and "parseInt expiry = None"
  shows "getAccessToken w = Some token"
  using assms by (simp add: getAccessToken_def truthy_def)

theorem getAccessToken_unparsable_expiry_witness:
  "getAccessToken (setItem TOKEN_EXPIRY_KEY ''NaN'' (setItem ACCESS_TOKEN_KEY ''abc'' browser0)) = Some ''abc''"
  using getAccessToken_unparsable_expiry
    [of "setItem TOKEN_EXPIRY_KEY ''NaN'' (setItem ACCESS_TOKEN_KEY ''abc'' browser0)" "''abc''" "''NaN''"]
  by (simp add: store_defs key_defs parseInt_NaN)

text \<open>
  The claim as it was stated fails on an expiry that is the empty string: \<open>parseInt\<close>
  gives \<open>NaN\<close> for it, and the guard \<open>!expiry\<close> makes \<open>getAccessToken\<close> return null.
\<close>

theorem getAccessToken_empty_expiry_counterexample:
  "getItem ACCESS_TOKEN_KEY (setItem TOKEN_EXPIRY_KEY [] (setItem ACCESS_TOKEN_KEY ''abc'' browser0)) = Some ''abc''
   \<and> getItem TOKEN_EXPIRY_KEY (setItem TOKEN_EXPIRY_KEY [] (setItem ACCESS_TOKEN_KEY ''abc'' browser0)) = Some []
   \<and> parseInt [] = None
   \<and> getAccessToken (setItem TOKEN_EXPIRY_KEY [] (setItem ACCESS_TOKEN_KEY ''abc'' browser0)) = None"
  by (simp add: store_defs key_defs parseInt_empty getAccessToken_def truthy_def)

text \<open>
  Claim C6. When the stored expiry is a number that the clock has reached,
  \<open>getAccessToken\<close> gives null, and \<open>getValidAccessToken\<close> does not return the cached
  token: its result is that of \<open>refreshAccessToken\<close>. A token stored with a lifetime of
  zero seconds is in that case at once, and at every later time.
\<close>

theorem getValidAccessToken_never_stale:
  assumes "getItem TOKEN_EXPIRY_KEY w = Some expiry" and "parseInt expiry = Some e" and "e \<le> now w"
  shows "getAccessToken w = None \<and> getValidAccessToken w = refreshAccessToken w
    \<and> getAccessToken ((storeTokens a r 0 w0)\<lparr>now := now w0 + int ms\<rparr>) = None
    \<and> getValidAccessToken ((storeTokens a r 0 w0)\<lparr>now := now w0 + int ms\<rparr>)
        = refreshAccessToken ((storeTokens a r 0 w0)\<lparr>now := now w0 + int ms\<rparr>)"
proof -
  have 1: "getAccessToken w = None" using assms by (rule expired_no_token)
  have 2: "getAccessToken ((storeTokens a r 0 w0)\<lparr>now := now w0 + int ms\<rparr>) = None"
    by (rule expired_no_token [OF storeTokens_expiry parseInt_toString]) simp
  show ?thesis using 1 2 by (simp add: getValidAccessToken_def truthy_def)
qed

theorem getValidAccessToken_never_stale_witness:
  "getAccessToken session_offline = None
   \<and> getValidAccessToken session_offline = refreshAccessToken session_offline"
proof -
  have h1: "getItem TOKEN_EXPIRY_KEY session_offline = Some (toString 1000)"
    by (simp add: session_offline_def browser0_def storeTokens_def store_defs Let_def)
  have h2: "parseInt (toString 1000) = Some 1000" by (rule parseInt_toString)
  have h3: "1000 \<le> now session_offline"
    by (simp add: session_offline_def browser0_def storeTokens_fields)
  show ?thesis
    using getValidAccessToken_never_stale [OF h1 h2 h3] by simp
qed

section \<open>The authorization callback and the refresh\<close>

lemma post_token_storage: "post_token req w = Some (reply, w1) \<Longrightarrow> localStorage w1 = localStorage w"
  by (auto simp: post_token_def split: list.splits prod.splits)

lemma post_token_requests:
  "post_token req w = Some (reply, w1) \<Longrightarrow> token_requests w1 = token_requests w @ [req]"
  by (auto simp: post_token_def split: list.splits prod.splits)

text \<open>Whenever \<open>handleCallback\<close> returns false, it has written nothing to storage.\<close>

lemma handleCallback_false_storage:
  assumes "handleCallback w = Some (False, w')"
  shows "localStorage w' = localStorage w"
  using assms
  by (auto simp: handleCallback_def Let_def
      dest: post_token_storage
      split: if_splits option.splits token_reply.splits prod.splits)

text \<open>
  Claim C3, as amended. After \<open>handleCallback\<close> has returned true, the code verifier is
  absent from storage. When it returns false without having sent a request to the token
  endpoint (an error parameter, no code, or no stored verifier), it leaves the browser as
  it was, so a verifier that was stored is still there.
\<close>

theorem handleCallback_verifier:
  assumes "handleCallback w = Some (ok, w')"
  shows "(ok \<longrightarrow> getItem CODE_VERIFIER_KEY w' = None)
       \<and> (\<not> ok \<and> token_requests w' = token_requests w \<longrightarrow> w' = w)"
  using assms
  by (auto simp: handleCallback_def Let_def store_defs storeTokens_def
      dest: post_token_requests
      split: if_splits option.splits token_reply.splits prod.splits)

theorem handleCallback_verifier_witness:
  "(\<exists>w'. handleCallback callback_with_code = Some (True, w') \<and> getItem CODE_VERIFIER_KEY w' = None)
   \<and> handleCallback callback_with_error = Some (False, callback_with_error)"
proof -
  have "\<exists>w'. handleCallback callback_with_code = Some (True, w')"
    by (simp add: handleCallback_def callback_with_code_def browser0_def store_defs key_defs
        post_token_def grant_def truthy_def Let_def)
  then obtain w' where s: "handleCallback callback_with_code = Some (True, w')" ..
  have 1: "getItem CODE_VERIFIER_KEY w' = None"
    using handleCallback_verifier [OF s] by simp
  have "\<exists>w'. handleCallback callback_with_error = Some (False, w') \<and> token_requests w' = token_requests callback_with_error"
    by (simp add: handleCallback_def callback_with_error_def browser0_def truthy_def Let_def)
  then obtain w2 where f: "handleCallback callback_with_error = Some (False, w2)"
    and q: "token_requests w2 = token_requests callback_with_error" by blast
  have 2: "w2 = callback_with_error"
    using handleCallback_verifier [OF f] q by simp
  show ?thesis using s 1 f 2 by blast
qed

text \<open>
  The claim as it was stated fails on a callback URL that carries an error: the call
  returns false and the verifier is still in storage.
\<close>

theorem handleCallback_error_keeps_verifier_counterexample:
  "handleCallback callback_with_error = Some (False, callback_with_error)
   \<and> getItem CODE_VERIFIER_KEY callback_with_error = Some ''verifier''"
  by (simp add: handleCallback_def callback_with_error_def browser0_def store_defs truthy_def Let_def)

text \<open>
  Claim C4, as amended. When \<open>refreshAccessToken\<close> fails after it found a refresh token
  (network error, response not ok, unreadable body), it has called \<open>logout\<close>: access
  token, refresh token and expiry are absent from storage. When no refresh token is
  stored it returns null at once and leaves the browser as it was.
\<close>

theorem refreshAccessToken_failure:
  assumes "refreshAccessToken w = Some (None, w')"
  shows "(truthy (getItem REFRESH_TOKEN_KEY w) \<longrightarrow>
            getItem ACCESS_TOKEN_KEY w' = None \<and> getItem REFRESH_TOKEN_KEY w' = None
            \<and> getItem TOKEN_EXPIRY_KEY w' = None)
       \<and> (\<not> truthy (getItem REFRESH_TOKEN_KEY w) \<longrightarrow> w' = w)"
  using assms
  by (auto simp: refreshAccessToken_def Let_def logout_def store_defs
      split: if_splits option.splits token_reply.splits prod.splits)

theorem refreshAccessToken_failure_witness:
  "(\<exists>w'. refreshAccessToken session_offline = Some (None, w')
         \<and> getItem ACCESS_TOKEN_KEY w' = None \<and> getItem REFRESH_TOKEN_KEY w' = None
         \<and> getItem TOKEN_EXPIRY_KEY w' = None)
   \<and> refreshAccessToken stale_without_refresh = Some (None, stale_without_refresh)"
proof -
  have t: "truthy (getItem REFRESH_TOKEN_KEY session_offline)"
    by (simp add: session_offline_def storeTokens_def store_defs key_defs truthy_def Let_def)
  have "\<exists>w'. refreshAccessToken session_offline = Some (None, w')"
    using t by (simp add: refreshAccessToken_def post_token_def session_offline_def Let_def)
  then obtain w' where s: "refreshAccessToken session_offline = Some (None, w')" ..
  have 1: "getItem ACCESS_TOKEN_KEY w' = None \<and> getItem REFRESH_TOKEN_KEY w' = None
         \<and> getItem TOKEN_EXPIRY_KEY w' = None"
    using refreshAccessToken_failure [OF s] t by simp
  have n: "\<not> truthy (getItem REFRESH_TOKEN_KEY stale_without_refresh)"
    by (simp add: stale_without_refresh_def browser0_def store_defs key_defs truthy_def)
  have "\<exists>w'. refreshAccessToken stale_without_refresh = Some (None, w')"
    using n by (simp add: refreshAccessToken_def Let_def)
  then obtain w2 where f: "refreshAccessToken stale_without_refresh = Some (None, w2)" ..
  have 2: "w2 = stale_without_refresh"
    using refreshAccessToken_failure [OF f] n by simp
  show ?thesis using s 1 f 2 by blast
qed

text \<open>
  The claim as it was stated fails when no refresh token is stored: the call returns
  null and the stale access token and its expiry are still in storage.
\<close>

theorem refreshAccessToken_no_refresh_token_counterexample:
  "refreshAccessToken stale_without_refresh = Some (None, stale_without_refresh)
   \<and> getItem ACCESS_TOKEN_KEY stale_without_refresh = Some ''stale''
   \<and> getItem TOKEN_EXPIRY_KEY stale_without_refresh = Some ''0''"
  by (simp add: refreshAccessToken_def stale_without_refresh_def browser0_def store_defs key_defs
      truthy_def Let_def)

section \<open>The catalog client\<close>

lemma getItem_updates [simp]:
  "getItem k (w\<lparr>now := t\<rparr>) = getItem k w"
  "getItem k (w\<lparr>token_endpoint := x\<rparr>) = getItem k w"
  "getItem k (w\<lparr>token_requests := q\<rparr>) = getItem k w"
  by (simp_all add: getItem_def)

lemma refresh_granted:
  assumes "getItem REFRESH_TOKEN_KEY w = Some r" and "r \<noteq> []"
    and "token_endpoint w = (0, grant a') # later"
  shows "refreshAccessToken w = Some (Some a',
           storeTokens a' r 3600 (w\<lparr>token_endpoint := later, token_requests := token_requests w @ [RefreshToken r]\<rparr>))"
  using assms
  by (simp add: refreshAccessToken_def post_token_def truthy_def grant_def Let_def)

text \<open>
  One 401 response: the token is refreshed; when the refresh yields a token the call
  goes on as the same primitive on the replies that remain, and when it yields none the
  401 is the error of the call.
\<close>

lemma api_fetch_401_step:
  assumes "getValidAccessToken w = Some (token, w1)" and "truthy token"
    and "refreshAccessToken (w1\<lparr>now := now w1 + int ms\<rparr>) = Some (newToken, w3)"
  shows "api_fetch ((ms, ApiResponse 401 st body) # rest) endpoint sent w
        = (if truthy newToken then api_fetch rest endpoint (sent @ [the token]) w3
           else Some (Inl (SpotifyApiError 401 st), sent @ [the token], w3))"
  using assms
  by (subst api_fetch.simps) (simp add: response_ok_def Let_def)

lemma api_fetch_rounds:
  assumes "getAccessToken w = Some a" and "a \<noteq> []"
    and "getItem REFRESH_TOKEN_KEY w = Some r" and "r \<noteq> []" and "a' \<noteq> []"
    and "token_endpoint w = replicate n (0, grant a') @ later"
  shows "\<exists>w'. api_fetch (replicate n (0, ApiResponse 401 st None) @ [(0, ApiResponse 200 st' (Some body))])
                 endpoint sent w
               = Some (Inr body, sent @ a # replicate n a', w')
             \<and> token_requests w' = token_requests w @ replicate n (RefreshToken r)"
  using assms
proof (induction n arbitrary: w a sent)
  case 0
  then show ?case
    by (simp add: api_fetch.simps getValidAccessToken_def truthy_def response_ok_def Let_def)
next
  case (Suc n)
  let ?w1 = "w\<lparr>now := now w + int 0\<rparr>"
  let ?w3 = "storeTokens a' r 3600
      (?w1\<lparr>token_endpoint := replicate n (0, grant a') @ later,
           token_requests := token_requests ?w1 @ [RefreshToken r]\<rparr>)"
  have tok: "getValidAccessToken w = Some (Some a, w)"
    using Suc.prems(1,2) by (simp add: getValidAccessToken_def truthy_def)
  have ref: "refreshAccessToken ?w1 = Some (Some a', ?w3)"
    by (rule refresh_granted) (use Suc.prems in simp_all)
  have step: "api_fetch (replicate (Suc n) (0, ApiResponse 401 st None) @ [(0, ApiResponse 200 st' (Some body))])
                 endpoint sent w
            = api_fetch (replicate n (0, ApiResponse 401 st None) @ [(0, ApiResponse 200 st' (Some body))])
                 endpoint (sent @ [a]) ?w3"
    using api_fetch_401_step [OF tok _ ref] Suc.prems(2,5) by (simp add: truthy_def)
  have "\<exists>w'. api_fetch (replicate n (0, ApiResponse 401 st None) @ [(0, ApiResponse 200 st' (Some body))])
                 endpoint (sent @ [a]) ?w3
               = Some (Inr body, (sent @ [a]) @ a' # replicate n a', w')
             \<and> token_requests w' = token_requests ?w3 @ replicate n (RefreshToken r)"
    by (rule Suc.IH) (use Suc.prems in \<open>simp_all add: storeTokens_getAccessToken storeTokens_fields\<close>)
  then show ?case
    unfolding step by (simp add: storeTokens_fields replicate_append_same)
qed

text \<open>
  Claim C2, as amended. A 401 response makes \<open>SpotifyAPI.fetch\<close> refresh the token,
  whatever time the request took. When the refresh yields a token, the request is sent
  again through the same primitive, which treats a further 401 in the same way: there is
  no bound of one. When the refresh yields no token, the call fails with the 401 as its
  error. With a valid session, \<open>n\<close> responses 401 in a row, each followed by a granted
  refresh, lead to \<open>n\<close> refreshes and \<open>n + 1\<close> requests, and the body of the last
  response is returned.
\<close>

theorem api_fetch_retries_unbounded:
  "(getValidAccessToken w = Some (token, w1) \<and> truthy token
      \<and> refreshAccessToken (w1\<lparr>now := now w1 + int ms\<rparr>) = Some (newToken, w3) \<longrightarrow>
      api_fetch ((ms, ApiResponse 401 st body) # rest) endpoint sent w
        = (if truthy newToken then api_fetch rest endpoint (sent @ [the token]) w3
           else Some (Inl (SpotifyApiError 401 st), sent @ [the token], w3)))
   \<and> (getAccessToken v = Some a \<and> a \<noteq> [] \<and> getItem REFRESH_TOKEN_KEY v = Some r \<and> r \<noteq> []
      \<and> a' \<noteq> [] \<and> token_endpoint v = replicate n (0, grant a') @ later \<longrightarrow>
      (\<exists>v'. api_fetch (replicate n (0, ApiResponse 401 st1 None) @ [(0, ApiResponse 200 st2 (Some reply))])
                 endpoint' sent' v
               = Some (Inr reply, sent' @ a # replicate n a', v')
             \<and> token_requests v' = token_requests v @ replicate n (RefreshToken r)))"
  using api_fetch_401_step [of w token w1 ms newToken w3 st body rest endpoint sent]
    api_fetch_rounds [of v a r a' n later st1 st2 reply endpoint' sent']
  by blast

lemma session0_facts:
  "getAccessToken session0 = Some ''tok0''"
  "getItem REFRESH_TOKEN_KEY session0 = Some ''ref0''"
  "token_endpoint session0 = [(0, grant ''tok1''), (0, grant ''tok1'')]"
  "token_requests session0 = []"
  by (simp_all add: session0_def storeTokens_getAccessToken storeTokens_fields browser0_def)

lemma session_rejected_token:
  "getValidAccessToken session_rejected = Some (Some ''tok0'', session_rejected)"
  by (simp add: getValidAccessToken_def session_rejected_def storeTokens_getAccessToken truthy_def)

lemma session_rejected_refresh:
  "\<exists>w3. refreshAccessToken (session_rejected\<lparr>now := now session_rejected + int 0\<rparr>) = Some (None, w3)"
  by (simp add: refreshAccessToken_def post_token_def session_rejected_def storeTokens_fields
      truthy_def Let_def)

theorem api_fetch_retries_unbounded_witness:
  "(\<exists>w'. api_fetch [(0, ApiResponse 401 ''Unauthorized'' None)] ''/me'' [] session_rejected
          = Some (Inl (SpotifyApiError 401 ''Unauthorized''), [''tok0''], w'))
   \<and> (\<exists>w'. api_fetch [(0, ApiResponse 401 ''Unauthorized'' None), (0, ApiResponse 401 ''Unauthorized'' None),
                    (0, ApiResponse 200 ''OK'' (Some ''{}''))] ''/me'' [] session0
          = Some (Inr ''{}'', [''tok0'', ''tok1'', ''tok1''], w')
        \<and> token_requests w' = [RefreshToken ''ref0'', RefreshToken ''ref0''])"
proof -
  obtain w3 where r: "refreshAccessToken (session_rejected\<lparr>now := now session_rejected + int 0\<rparr>) = Some (None, w3)"
    using session_rejected_refresh by blast
  have 1: "api_fetch [(0, ApiResponse 401 ''Unauthorized'' None)] ''/me'' [] session_rejected
          = Some (Inl (SpotifyApiError 401 ''Unauthorized''), [''tok0''], w3)"
    using api_fetch_retries_unbounded
      [where w = session_rejected and token = "Some ''tok0''" and ?w1.0 = session_rejected and ms = 0
         and newToken = None and ?w3.0 = w3 and st = "''Unauthorized''" and body = None and rest = "[]"
         and endpoint = "''/me''" and sent = "[]"]
      session_rejected_token r
    by (simp add: truthy_def)
  have 2: "\<exists>w'. api_fetch [(0, ApiResponse 401 ''Unauthorized'' None), (0, ApiResponse 401 ''Unauthorized'' None),
                    (0, ApiResponse 200 ''OK'' (Some ''{}''))] ''/me'' [] session0
          = Some (Inr ''{}'', [''tok0'', ''tok1'', ''tok1''], w')
        \<and> token_requests w' = [RefreshToken ''ref0'', RefreshToken ''ref0'']"
    using api_fetch_retries_unbounded
      [where v = session0 and a = "''tok0''" and r = "''ref0''" and a' = "''tok1''" and n = 2 and later = "[]"
         and ?st1.0 = "''Unauthorized''" and ?st2.0 = "''OK''" and reply = "''{}''" and endpoint' = "''/me''"
         and sent' = "[]"]
    by (simp add: session0_facts numeral_2_eq_2)
  show ?thesis using 1 2 by blast
qed

text \<open>
  The claim as it was stated fails when the retried request gets a 401 as well: the
  token is refreshed a second time, a third request is sent, and the call succeeds.
\<close>

theorem api_fetch_second_401_counterexample:
  "fst (the (api_fetch [(0, ApiResponse 401 ''Unauthorized'' None), (0, ApiResponse 401 ''Unauthorized'' None),
                 (0, ApiResponse 200 ''OK'' (Some ''{}''))] ''/me'' [] session0)) = Inr ''{}''
   \<and> fst (snd (the (api_fetch [(0, ApiResponse 401 ''Unauthorized'' None), (0, ApiResponse 401 ''Unauthorized'' None),
                 (0, ApiResponse 200 ''OK'' (Some ''{}''))] ''/me'' [] session0)))
       = [''tok0'', ''tok1'', ''tok1'']
   \<and> token_requests (snd (snd (the (api_fetch [(0, ApiResponse 401 ''Unauthorized'' None),
                 (0, ApiResponse 401 ''Unauthorized'' None),
                 (0, ApiResponse 200 ''OK'' (Some ''{}''))] ''/me'' [] session0))))
       = [RefreshToken ''ref0'', RefreshToken ''ref0'']
   \<and> api_fetch [(0, ApiResponse 401 ''Unauthorized'' None), (0, ApiResponse 401 ''Unauthorized'' None),
                 (0, ApiResponse 200 ''OK'' (Some ''{}''))] ''/me'' [] session0 \<noteq> None"
proof -
  let ?w1 = "session0\<lparr>now := now session0 + int 0\<rparr>"
  let ?w2 = "storeTokens ''tok1'' ''ref0'' 3600
      (?w1\<lparr>token_endpoint := [(0, grant ''tok1'')], token_requests := token_requests ?w1 @ [RefreshToken ''ref0'']\<rparr>)"
  let ?w3 = "?w2\<lparr>now := now ?w2 + int 0\<rparr>"
  let ?w4 = "storeTokens ''tok1'' ''ref0'' 3600
      (?w3\<lparr>token_endpoint := [], token_requests := token_requests ?w3 @ [RefreshToken ''ref0'']\<rparr>)"
  have t0: "getValidAccessToken session0 = Some (Some ''tok0'', session0)"
    by (simp add: getValidAccessToken_def session0_facts truthy_def)
  have r1: "refreshAccessToken ?w1 = Some (Some ''tok1'', ?w2)"
    by (rule refresh_granted [where r = "''ref0''"]) (simp_all add: session0_facts)
  have t2: "getValidAccessToken ?w2 = Some (Some ''tok1'', ?w2)"
    by (simp add: getValidAccessToken_def storeTokens_getAccessToken truthy_def)
  have r3: "refreshAccessToken ?w3 = Some (Some ''tok1'', ?w4)"
    by (rule refresh_granted [where r = "''ref0''"]) (simp_all add: storeTokens_fields)
  have t4: "getValidAccessToken ?w4 = Some (Some ''tok1'', ?w4)"
    by (simp add: getValidAccessToken_def storeTokens_getAccessToken truthy_def)
  have q: "token_requests ?w4 = [RefreshToken ''ref0'', RefreshToken ''ref0'']"
    by (simp add: storeTokens_fields session0_facts)
  have "api_fetch [(0, ApiResponse 401 ''Unauthorized'' None), (0, ApiResponse 401 ''Unauthorized'' None),
                 (0, ApiResponse 200 ''OK'' (Some ''{}''))] ''/me'' [] session0
        = api_fetch [(0, ApiResponse 401 ''Unauthorized'' None), (0, ApiResponse 200 ''OK'' (Some ''{}''))]
            ''/me'' [''tok0''] ?w2"
    using t0 r1 by (subst api_fetch.simps) (simp add: truthy_def response_ok_def Let_def)
  also have "\<dots> = api_fetch [(0, ApiResponse 200 ''OK'' (Some ''{}''))] ''/me'' [''tok0'', ''tok1''] ?w4"
    using t2 r3 by (subst api_fetch.simps) (simp add: truthy_def response_ok_def Let_def)
  also have "\<dots> = Some (Inr ''{}'', [''tok0'', ''tok1'', ''tok1''], ?w4\<lparr>now := now ?w4 + int 0\<rparr>)"
    using t4 by (subst api_fetch.simps) (simp add: truthy_def response_ok_def Let_def)
  finally show ?thesis using q by simp
qed

section \<open>The playback engine\<close>

lemmas engine_defs =
  clearTimer_def setTimer_def clearInitTimeout_def resolve_def addListener_def removeListener_def
  notifyStateChange_def pollRemoteState_def startRemotePolling_def poll_settles_def
  timeout_fallback_def discard_player_def onReady_def onError_def connect_settles_def
  sdk_emits_def timer_fires_def setupEventListeners_def initialize_def onStateChange_def
  unsubscribe_def disconnect_def new_SpotifyPlayer_def run_def truthy_def Let_def
  fetchRemoteState_def response_ok_def

subsection \<open>Nothing sets \<open>useRemote\<close> back\<close>

lemma useRemote_simps [simp]:
  "useRemote (clearTimer t s) = useRemote s"
  "useRemote (snd (setTimer tm s)) = useRemote s"
  "useRemote (clearInitTimeout a s) = useRemote s"
  "useRemote (resolve a v s) = useRemote s"
  "useRemote (addListener p e l s) = useRemote s"
  "useRemote (removeListener e l s) = useRemote s"
  "useRemote (notifyStateChange st s) = useRemote s"
  "useRemote (pollRemoteState b s) = useRemote s"
  "useRemote (discard_player s) = useRemote s"
  by (simp_all add: clearTimer_def setTimer_def clearInitTimeout_def resolve_def addListener_def
      removeListener_def notifyStateChange_def pollRemoteState_def discard_player_def
      split: option.splits)

lemma useRemote_startRemotePolling [simp]: "useRemote (startRemotePolling s) = useRemote s"
  by (simp add: startRemotePolling_def split: option.splits)

lemma useRemote_poll_settles [simp]: "useRemote (poll_settles i token reply s) = useRemote s"
  by (simp add: poll_settles_def Let_def setTimer_def notifyStateChange_def split: option.splits prod.splits)

lemma useRemote_run_listener: "useRemote s \<Longrightarrow> useRemote (run_listener l ev s)"
  by (induction l ev s rule: run_listener.induct) (simp_all add: onReady_def onError_def)

lemma useRemote_fold_listeners: "useRemote s \<Longrightarrow> useRemote (fold (\<lambda>l. run_listener l ev) ls s)"
  by (induction ls arbitrary: s) (simp_all add: useRemote_run_listener)

lemma useRemote_sdk_emits: "useRemote s \<Longrightarrow> useRemote (sdk_emits p ev s)"
  by (simp add: sdk_emits_def useRemote_fold_listeners)

lemma useRemote_timer_fires: "useRemote s \<Longrightarrow> useRemote (timer_fires t s)"
proof -
  have cb: "\<And>cb s. useRemote s \<Longrightarrow> useRemote (run_timer_callback cb s)"
    subgoal for cb s by (cases cb) (simp_all add: timeout_fallback_def)
    done
  assume "useRemote s"
  then show ?thesis
    by (auto simp: timer_fires_def cb split: option.splits timer.splits)
qed

lemma useRemote_connect_settles: "useRemote s \<Longrightarrow> useRemote (connect_settles a b s)"
  by (simp add: connect_settles_def Let_def)

lemma useRemote_setupEventListeners [simp]: "useRemote (setupEventListeners s) = useRemote s"
  by (simp add: setupEventListeners_def split: option.splits)

lemma useRemote_initialize: "useRemote (snd (initialize sdk token s)) = useRemote s"
  by (simp add: initialize_def Let_def setTimer_def split: prod.splits)

lemma useRemote_remoteControl [simp]: "useRemote (snd (remoteControl m e token settles s)) = useRemote s"
  by (simp add: remoteControl_def Let_def split: fetch_settles.splits)

lemma useRemote_getCurrentState [simp]: "useRemote (snd (getCurrentState token reply local s)) = useRemote s"
  by (simp add: getCurrentState_def split: option.splits)

lemma useRemote_call: "useRemote (call c s) = useRemote s"
proof (cases c)
  case (CallTogglePlay token reply token2 settles)
  then show ?thesis
    by (simp add: togglePlay_def pause_def resume_def getCurrentState_def Let_def
        split: option.splits prod.splits)
qed (simp_all add: play_def pause_def resume_def nextTrack_def previousTrack_def seek_def
      setVolume_def Let_def split: option.splits play_reply.splits fetch_settles.splits)

lemma useRemote_step: "useRemote s \<Longrightarrow> useRemote (step s e)"
  by (cases e)
    (simp_all add: useRemote_timer_fires useRemote_sdk_emits useRemote_connect_settles
      useRemote_initialize onStateChange_def unsubscribe_def disconnect_def useRemote_call
      split: option.splits)

lemma useRemote_run: "useRemote s \<Longrightarrow> useRemote (run s evs)"
  unfolding run_def by (induction evs arbitrary: s) (simp_all add: useRemote_step)

lemma sdk_calls_call: "useRemote s \<Longrightarrow> sdk_calls (call c s) = sdk_calls s"
  by (cases c)
    (simp_all add: play_def pause_def resume_def nextTrack_def previousTrack_def seek_def
      setVolume_def togglePlay_def getCurrentState_def remoteControl_def setTimer_def Let_def
      split: option.splits play_reply.splits fetch_settles.splits prod.splits)

lemma requests_call:
  assumes "useRemote s" and "with_token c"
  shows "\<exists>rs. rs \<noteq> [] \<and> requests (call c s) = requests s @ rs \<and> list_all remote_request rs"
  using assms
  by (cases c)
    (simp_all add: play_def pause_def resume_def nextTrack_def previousTrack_def seek_def
      setVolume_def togglePlay_def getCurrentState_def remoteControl_def setTimer_def Let_def
      split: option.splits play_reply.splits fetch_settles.splits prod.splits)

lemma remote_engine_eval:
  "useRemote remote_engine \<and> timers remote_engine = [(4, Interval 3000 PollRemoteState)]
   \<and> requests remote_engine = [Http ''GET'' ''https://api.spotify.com/v1/me/player'' ''tok'' None]
   \<and> next_handle remote_engine = 5 \<and> player remote_engine = Some 1
   \<and> deviceId remote_engine = None"
  by (simp add: remote_engine_def engine_defs)

text \<open>
  Claim C7. Once \<open>useRemote\<close> is set, it stays set whatever happens afterwards: timers,
  events of the SDK (a late \<open>ready\<close> with a device id among them), settled promises,
  polls, and calls of any method. In that mode no transport method and no state query
  calls into the local SDK player, and with a usable token each of them sends its request
  to the player endpoints of the Web API.
\<close>

theorem remote_fallback_is_permanent:
  assumes "useRemote s"
  shows "useRemote (run s evs)
       \<and> sdk_calls (call c (run s evs)) = sdk_calls (run s evs)
       \<and> (with_token c \<longrightarrow>
            (\<exists>rs. rs \<noteq> [] \<and> requests (call c (run s evs)) = requests (run s evs) @ rs
                  \<and> list_all remote_request rs))"
  using assms useRemote_run [of s evs] sdk_calls_call [of "run s evs" c] requests_call [of "run s evs" c]
  by blast

theorem remote_fallback_is_permanent_witness:
  "useRemote (run remote_engine [SdkEmits 1 (Ready ''device'')])
   \<and> deviceId (run remote_engine [SdkEmits 1 (Ready ''device'')]) = Some ''device''
   \<and> sdk_calls (call (CallPause (Some ''tok'') FetchResolves) (run remote_engine [SdkEmits 1 (Ready ''device'')]))
       = sdk_calls (run remote_engine [SdkEmits 1 (Ready ''device'')])
   \<and> (\<exists>rs. rs \<noteq> []
         \<and> requests (call (CallPause (Some ''tok'') FetchResolves) (run remote_engine [SdkEmits 1 (Ready ''device'')]))
             = requests (run remote_engine [SdkEmits 1 (Ready ''device'')]) @ rs
         \<and> list_all remote_request rs)"
proof -
  have h: "useRemote remote_engine" using remote_engine_eval by simp
  have d: "deviceId (run remote_engine [SdkEmits 1 (Ready ''device'')]) = Some ''device''"
    by (simp add: remote_engine_def engine_defs)
  show ?thesis
    using remote_fallback_is_permanent
      [OF h, of "[SdkEmits 1 (Ready ''device'')]" "CallPause (Some ''tok'') FetchResolves"] d
    by (simp add: truthy_def)
qed

subsection \<open>Disconnecting\<close>

lemma after_error_fallback_eval:
  "useRemote after_error_fallback \<and> player after_error_fallback = None
   \<and> pollInterval after_error_fallback = Some 4
   \<and> timers after_error_fallback = [(4, Interval 3000 PollRemoteState)]
   \<and> stateCallbacks after_error_fallback = [7]
   \<and> in_flight after_error_fallback = []
   \<and> next_handle after_error_fallback = 5
   \<and> delivered after_error_fallback = [(7, None)]"
  by (simp add: after_error_fallback_def engine_defs)

text \<open>
  Claim C1 does not hold of the code. On an engine in remote control after an error of
  the SDK, \<open>disconnect\<close> changes nothing: no player is held, and the interval is not
  cleared. The next tick of the interval polls, and the subscriber is called with the
  result.
\<close>

theorem disconnect_leaves_polling_running:
  "disconnect after_error_fallback = after_error_fallback
   \<and> pollInterval (disconnect after_error_fallback) = Some 4
   \<and> timers (disconnect after_error_fallback) = [(4, Interval 3000 PollRemoteState)]
   \<and> delivered (run (disconnect after_error_fallback)
        [TimerFires 4, PollSettles 5 (Some ''tok'') (PlayerResponse 204 None)])
      = delivered (disconnect after_error_fallback) @ [(7, None)]"
proof -
  have d: "disconnect after_error_fallback = after_error_fallback"
    using after_error_fallback_eval by (simp add: disconnect_def)
  show ?thesis
    unfolding d using after_error_fallback_eval
    by (simp add: run_def timer_fires_def pollRemoteState_def poll_settles_def
        notifyStateChange_def fetchRemoteState_def truthy_def Let_def)
qed

text \<open>
  In every state \<open>disconnect\<close> leaves the timers, the interval handle, the polls in
  flight, the subscribers and \<open>useRemote\<close> as they are.
\<close>

lemma disconnect_keeps_polling:
  "timers (disconnect s) = timers s \<and> pollInterval (disconnect s) = pollInterval s
   \<and> in_flight (disconnect s) = in_flight s \<and> stateCallbacks (disconnect s) = stateCallbacks s
   \<and> useRemote (disconnect s) = useRemote s"
  by (simp add: disconnect_def split: option.splits)

subsection \<open>Polling again after a control action\<close>

text \<open>
  Claim C9 does not hold of the code. In remote control, with a token, \<open>seek\<close> sends its
  request and returns; no timer is set and no poll is started, where \<open>pause\<close>, through
  \<open>remoteControl\<close>, sets the timer of 200 ms that polls.
\<close>

theorem seek_schedules_no_poll:
  "useRemote remote_engine
   \<and> fst (seek 1000 (Some ''tok'') FetchResolves remote_engine) = None
   \<and> requests (snd (seek 1000 (Some ''tok'') FetchResolves remote_engine))
       = requests remote_engine @
           [Http ''PUT'' ''https://api.spotify.com/v1/me/player/seek?position_ms=1000'' ''tok'' None]
   \<and> timers (snd (seek 1000 (Some ''tok'') FetchResolves remote_engine)) = timers remote_engine
   \<and> in_flight (snd (seek 1000 (Some ''tok'') FetchResolves remote_engine)) = in_flight remote_engine
   \<and> timers (snd (pause (Some ''tok'') FetchResolves remote_engine))
       = timers remote_engine @ [(5, Timeout 200 PollRemoteState)]"
  using remote_engine_eval
  by (simp add: seek_def pause_def remoteControl_def setTimer_def truthy_def Let_def
      toString_1000)

text \<open>In remote control \<open>seek\<close>, \<open>setVolume\<close> and \<open>play\<close> never set a timer or start a poll.\<close>

lemma no_repoll:
  assumes "useRemote s"
  shows "timers (snd (seek ms token settles s)) = timers s"
    and "timers (snd (setVolume v token settles s)) = timers s"
    and "timers (snd (play uri token reply s)) = timers s"
    and "in_flight (snd (seek ms token settles s)) = in_flight s"
    and "in_flight (snd (setVolume v token settles s)) = in_flight s"
    and "in_flight (snd (play uri token reply s)) = in_flight s"
  using assms
  by (simp_all add: seek_def setVolume_def play_def Let_def
      split: fetch_settles.splits play_reply.splits)

text \<open>\<open>remoteControl\<close>, and so \<open>pause\<close>, \<open>resume\<close>, \<open>nextTrack\<close> and \<open>previousTrack\<close>, does.\<close>

lemma remoteControl_repolls:
  assumes "truthy token"
  shows "timers (snd (remoteControl m e token FetchResolves s))
           = timers s @ [(next_handle s, Timeout 200 PollRemoteState)]"
  using assms by (simp add: remoteControl_def setTimer_def Let_def)

subsection \<open>The body of a play request\<close>

text \<open>
  Claim C8, as amended. For a non-empty URI, \<open>play\<close> sends \<open>{"context_uri": uri}\<close> when
  the URI contains \<open>playlist\<close> or \<open>album\<close> anywhere in it, and \<open>{"uris": [uri]}\<close>
  otherwise; so \<open>spotify:playlist:abc\<close> is sent as a context and \<open>spotify:track:xyz\<close>
  as a list of one item.
\<close>

theorem play_body_by_substring:
  assumes "truthy token" and "truthy (deviceId s) \<or> useRemote s" and "uri \<noteq> []"
  shows \<open>(\<exists>url. requests (snd (play (Some uri) token reply s))
            = requests s @
              [Http ''PUT'' url (the token)
                 (Some (JSON_stringify
                    (if js_includes uri ''playlist'' \<or> js_includes uri ''album''
                     then JObject [(''context_uri'', JString uri)]
                     else JObject [(''uris'', JArray [JString uri])])))])
       \<and> JSON_stringify (play_body (Some ''spotify:playlist:abc'')) = ''{"context_uri":"spotify:playlist:abc"}''
       \<and> JSON_stringify (play_body (Some ''spotify:track:xyz'')) = ''{"uris":["spotify:track:xyz"]}''\<close>
proof -
  have 1: "\<exists>url. requests (snd (play (Some uri) token reply s))
            = requests s @
              [Http ''PUT'' url (the token)
                 (Some (JSON_stringify
                    (if js_includes uri ''playlist'' \<or> js_includes uri ''album''
                     then JObject [(''context_uri'', JString uri)]
                     else JObject [(''uris'', JArray [JString uri])])))]"
    using assms
    by (auto simp: play_def play_body_def truthy_def Let_def split: play_reply.splits)
  have 2: \<open>JSON_stringify (play_body (Some ''spotify:playlist:abc'')) = ''{"context_uri":"spotify:playlist:abc"}''\<close>
    by (simp add: play_body_def truthy_def quoteJSON_def escapeChar_def)
  have 3: \<open>JSON_stringify (play_body (Some ''spotify:track:xyz'')) = ''{"uris":["spotify:track:xyz"]}''\<close>
    by (simp add: play_body_def truthy_def quoteJSON_def escapeChar_def)
  show ?thesis using 1 2 3 by blast
qed

theorem play_body_by_substring_witness:
  \<open>\<exists>url. requests (snd (play (Some ''spotify:playlist:abc'') (Some ''tok'')
             (PlayResponse 204 ''No Content'') remote_engine))
     = requests remote_engine @
         [Http ''PUT'' url ''tok'' (Some ''{"context_uri":"spotify:playlist:abc"}'')]\<close>
proof -
  have t: "truthy (Some ''tok'')" by (simp add: truthy_def)
  have m: "truthy (deviceId remote_engine) \<or> useRemote remote_engine"
    using remote_engine_eval by simp
  have u: "''spotify:playlist:abc'' \<noteq> []" by simp
  show ?thesis
    using play_body_by_substring [OF t m u, of "PlayResponse 204 ''No Content''"]
    by (simp add: quoteJSON_def escapeChar_def)
qed

text \<open>
  The claim as it was stated fails on a track whose identifier contains \<open>album\<close>: its
  resource type is \<open>track\<close>, and it is sent as a context.
\<close>

theorem play_track_with_album_in_id_counterexample:
  \<open>resource_type ''spotify:track:4album9XyZ0123456789ab'' = ''track''
   \<and> requests (snd (play (Some ''spotify:track:4album9XyZ0123456789ab'') (Some ''tok'')
        (PlayResponse 204 ''No Content'') remote_engine))
     = requests remote_engine @
        [Http ''PUT'' ''https://api.spotify.com/v1/me/player/play'' ''tok''
           (Some ''{"context_uri":"spotify:track:4album9XyZ0123456789ab"}'')]\<close>
  using remote_engine_eval
  by (simp add: resource_type_def play_def play_body_def truthy_def Let_def response_ok_def
      quoteJSON_def escapeChar_def)

subsection \<open>Calling \<open>initialize\<close> twice\<close>

lemma initialize_held: "player s \<noteq> None \<Longrightarrow> initialize sdk token s = (InitReturns True, s)"
  by (simp add: initialize_def)

lemma initialize_handshake:
  assumes "player s = None" and "truthy token" and "sdk \<noteq> SdkLoadFails"
  shows "fst (initialize sdk token s) = InitPending (next_handle s)
       \<and> sdk_calls (snd (initialize sdk token s)) = sdk_calls s @ handshake (next_handle s)"
  using assms
  by (simp add: initialize_def setupEventListeners_def addListener_def setTimer_def handshake_def
      Let_def split: prod.splits)

lemma first_call_eval:
  assumes "token \<noteq> []" and "sdk \<noteq> SdkLoadFails"
  shows "first_call sdk token =
     \<lparr>player = Some 1, deviceId = None, useRemote = False, pollInterval = None,
      stateCallbacks = [], next_handle = 3,
      listeners =
        [(1, ready, Setup ready), (1, not_ready, Setup not_ready),
         (1, player_state_changed, Setup player_state_changed),
         (1, initialization_error, Setup initialization_error),
         (1, authentication_error, Setup authentication_error),
         (1, account_error, Setup account_error),
         (1, playback_error, Setup playback_error), (1, ready, OnReady 1),
         (1, initialization_error, OnError 1),
         (1, authentication_error, OnError 1)],
      timers = [(2, Timeout 5000 (FallbackTimeout 1))], in_flight = [],
      init_timeout = [(1, 2)], connecting = [1], resolved = [],
      sdk_calls = handshake 1, requests = [], delivered = [], alerts = [], auth_refreshes = 0\<rparr>"
  using assms
  by (simp add: first_call_def engine_defs handshake_def)

lemma kept_after_timeout:
  assumes "token \<noteq> []" and "sdk \<noteq> SdkLoadFails"
  shows "player (step (first_call sdk token) (TimerFires 2)) = Some 1
       \<and> useRemote (step (first_call sdk token) (TimerFires 2))
       \<and> resolved (step (first_call sdk token) (TimerFires 2)) = [(1, True)]"
  by (simp add: first_call_eval [OF assms] engine_defs)

lemma kept_after_ready:
  assumes "token \<noteq> []" and "sdk \<noteq> SdkLoadFails"
  shows "player (step (first_call sdk token) (SdkEmits 1 (Ready d))) = Some 1
       \<and> \<not> useRemote (step (first_call sdk token) (SdkEmits 1 (Ready d)))
       \<and> deviceId (step (first_call sdk token) (SdkEmits 1 (Ready d))) = Some d
       \<and> resolved (step (first_call sdk token) (SdkEmits 1 (Ready d))) = [(1, True)]"
  by (simp add: first_call_eval [OF assms] engine_defs)

lemma discarded_after_init_error:
  assumes "token \<noteq> []" and "sdk \<noteq> SdkLoadFails"
  shows "player (step (first_call sdk token) (SdkEmits 1 (InitializationError m))) = None
       \<and> useRemote (step (first_call sdk token) (SdkEmits 1 (InitializationError m)))
       \<and> next_handle (step (first_call sdk token) (SdkEmits 1 (InitializationError m))) = 4
       \<and> resolved (step (first_call sdk token) (SdkEmits 1 (InitializationError m))) = [(1, True)]"
  by (simp add: first_call_eval [OF assms] engine_defs)

lemma discarded_after_auth_error:
  assumes "token \<noteq> []" and "sdk \<noteq> SdkLoadFails"
  shows "player (step (first_call sdk token) (SdkEmits 1 (AuthenticationError m))) = None
       \<and> useRemote (step (first_call sdk token) (SdkEmits 1 (AuthenticationError m)))
       \<and> next_handle (step (first_call sdk token) (SdkEmits 1 (AuthenticationError m))) = 4
       \<and> resolved (step (first_call sdk token) (SdkEmits 1 (AuthenticationError m))) = [(1, True)]"
  by (simp add: first_call_eval [OF assms] engine_defs)

lemma discarded_after_connect_false:
  assumes "token \<noteq> []" and "sdk \<noteq> SdkLoadFails"
  shows "player (step (first_call sdk token) (ConnectSettles 1 False)) = None
       \<and> useRemote (step (first_call sdk token) (ConnectSettles 1 False))
       \<and> next_handle (step (first_call sdk token) (ConnectSettles 1 False)) = 4
       \<and> resolved (step (first_call sdk token) (ConnectSettles 1 False)) = [(1, True)]"
  by (simp add: first_call_eval [OF assms] engine_defs)

lemma resolves_after_init_error:
  assumes "token \<noteq> []" and "sdk \<noteq> SdkLoadFails" and "token' \<noteq> []" and "sdk' \<noteq> SdkLoadFails"
  shows "second_call_resolves sdk' token' d' m' (step (first_call sdk token) (SdkEmits 1 (InitializationError m)))"
  using assms(3,4)
  by (simp add: second_call_resolves_def first_call_eval [OF assms(1,2)] engine_defs handshake_def)

lemma resolves_after_auth_error:
  assumes "token \<noteq> []" and "sdk \<noteq> SdkLoadFails" and "token' \<noteq> []" and "sdk' \<noteq> SdkLoadFails"
  shows "second_call_resolves sdk' token' d' m' (step (first_call sdk token) (SdkEmits 1 (AuthenticationError m)))"
  using assms(3,4)
  by (simp add: second_call_resolves_def first_call_eval [OF assms(1,2)] engine_defs handshake_def)

lemma resolves_after_connect_false:
  assumes "token \<noteq> []" and "sdk \<noteq> SdkLoadFails" and "token' \<noteq> []" and "sdk' \<noteq> SdkLoadFails"
  shows "second_call_resolves sdk' token' d' m' (step (first_call sdk token) (ConnectSettles 1 False))"
  using assms(3,4)
  by (simp add: second_call_resolves_def first_call_eval [OF assms(1,2)] engine_defs handshake_def)

text \<open>
  Claim C5, as amended. With a usable token, \<open>initialize\<close> called twice in a row
  returns true both times: the promise of the first call resolves to true on each of its
  five outcomes, and so does the second call. When the first outcome left the player in
  place (a \<open>ready\<close> event, or the fallback on timeout), the second \<open>initialize\<close> returns
  true at once and does nothing, so the handshake is performed once. When the first
  outcome discarded the player so that initialization can be tried again (the fallback on
  an initialization or authentication error, or on \<open>connect()\<close> giving false), the
  second \<open>initialize\<close> goes through the whole handshake again, and its promise resolves
  to true on each of its outcomes.
\<close>

theorem initialize_twice:
  assumes "token \<noteq> []" and "sdk \<noteq> SdkLoadFails" and "token' \<noteq> []" and "sdk' \<noteq> SdkLoadFails"
  shows "initialize sdk (Some token) new_SpotifyPlayer = (InitPending 1, first_call sdk token)
       \<and> sdk_calls (first_call sdk token) = handshake 1
       \<and> resolved (step (first_call sdk token) (SdkEmits 1 (Ready d))) = [(1, True)]
       \<and> second_call_noop sdk' token' (step (first_call sdk token) (SdkEmits 1 (Ready d)))
       \<and> resolved (step (first_call sdk token) (TimerFires 2)) = [(1, True)]
       \<and> useRemote (step (first_call sdk token) (TimerFires 2))
       \<and> second_call_noop sdk' token' (step (first_call sdk token) (TimerFires 2))
       \<and> resolved (step (first_call sdk token) (SdkEmits 1 (InitializationError m))) = [(1, True)]
       \<and> useRemote (step (first_call sdk token) (SdkEmits 1 (InitializationError m)))
       \<and> second_call_handshake sdk' token' (step (first_call sdk token) (SdkEmits 1 (InitializationError m)))
       \<and> second_call_resolves sdk' token' d' m' (step (first_call sdk token) (SdkEmits 1 (InitializationError m)))
       \<and> resolved (step (first_call sdk token) (SdkEmits 1 (AuthenticationError m))) = [(1, True)]
       \<and> useRemote (step (first_call sdk token) (SdkEmits 1 (AuthenticationError m)))
       \<and> second_call_handshake sdk' token' (step (first_call sdk token) (SdkEmits 1 (AuthenticationError m)))
       \<and> second_call_resolves sdk' token' d' m' (step (first_call sdk token) (SdkEmits 1 (AuthenticationError m)))
       \<and> resolved (step (first_call sdk token) (ConnectSettles 1 False)) = [(1, True)]
       \<and> useRemote (step (first_call sdk token) (ConnectSettles 1 False))
       \<and> second_call_handshake sdk' token' (step (first_call sdk token) (ConnectSettles 1 False))
       \<and> second_call_resolves sdk' token' d' m' (step (first_call sdk token) (ConnectSettles 1 False))"
proof -
  note a = assms(1,2)
  have tk: "truthy (Some token')" using assms(3) by (simp add: truthy_def)
  have 0: "initialize sdk (Some token) new_SpotifyPlayer = (InitPending 1, first_call sdk token)"
    using initialize_handshake [of new_SpotifyPlayer "Some token" sdk] a
    by (simp add: first_call_def new_SpotifyPlayer_def truthy_def prod_eq_iff)
  have 1: "sdk_calls (first_call sdk token) = handshake 1"
    by (simp add: first_call_eval [OF a])
  have n: "\<And>s. player s = Some 1 \<Longrightarrow> second_call_noop sdk' token' s"
    by (simp add: second_call_noop_def initialize_held)
  have h: "\<And>s. player s = None \<Longrightarrow> second_call_handshake sdk' token' s"
    unfolding second_call_handshake_def using initialize_handshake tk assms(4) by blast
  show ?thesis
    using 0 1 kept_after_ready [OF a, of d] kept_after_timeout [OF a]
      discarded_after_init_error [OF a, of m] discarded_after_auth_error [OF a, of m]
      discarded_after_connect_false [OF a] n h
      resolves_after_init_error [OF assms, of d' m' m] resolves_after_auth_error [OF assms, of d' m' m]
      resolves_after_connect_false [OF assms, of d' m']
    by simp
qed

theorem initialize_twice_witness:
  "second_call_noop SdkPresent ''tok'' (step (first_call SdkPresent ''tok'') (SdkEmits 1 (Ready ''device'')))
   \<and> second_call_noop SdkPresent ''tok'' (step (first_call SdkPresent ''tok'') (TimerFires 2))
   \<and> second_call_handshake SdkPresent ''tok''
        (step (first_call SdkPresent ''tok'') (SdkEmits 1 (InitializationError ''failed'')))
   \<and> second_call_resolves SdkPresent ''tok'' ''device'' ''failed''
        (step (first_call SdkPresent ''tok'') (SdkEmits 1 (InitializationError ''failed'')))
   \<and> second_call_handshake SdkPresent ''tok'' (step (first_call SdkPresent ''tok'') (ConnectSettles 1 False))
   \<and> second_call_resolves SdkPresent ''tok'' ''device'' ''failed''
        (step (first_call SdkPresent ''tok'') (ConnectSettles 1 False))"
  using initialize_twice
    [where token = "''tok''" and sdk = SdkPresent and token' = "''tok''" and sdk' = SdkPresent
       and d = "''device''" and m = "''failed''" and d' = "''device''" and m' = "''failed''"]
  by simp

text \<open>
  The claim as it was stated fails after a fallback on an error of the SDK: the promise
  of the first call has resolved to true, and the second call constructs a second player,
  registers its listeners and connects again.
\<close>

theorem initialize_after_error_counterexample:
  "resolved (run new_SpotifyPlayer
      [CallInitialize SdkPresent (Some ''tok''), SdkEmits 1 (InitializationError ''failed'')])
     = [(1, True)]
   \<and> useRemote (run new_SpotifyPlayer
      [CallInitialize SdkPresent (Some ''tok''), SdkEmits 1 (InitializationError ''failed'')])
   \<and> fst (initialize SdkPresent (Some ''tok'') (run new_SpotifyPlayer
      [CallInitialize SdkPresent (Some ''tok''), SdkEmits 1 (InitializationError ''failed'')]))
     = InitPending 4
   \<and> sdk_calls (snd (initialize SdkPresent (Some ''tok'') (run new_SpotifyPlayer
      [CallInitialize SdkPresent (Some ''tok''), SdkEmits 1 (InitializationError ''failed'')])))
     = handshake 1
       @ [RemoveListener 1 ready (OnReady 1), RemoveListener 1 initialization_error (OnError 1),
          RemoveListener 1 authentication_error (OnError 1), Disconnect 1]
       @ handshake 4"
  by (simp add: engine_defs handshake_def)

end
